theory Spec2Isabelle
  imports Main
begin

section \<open>The declarations of package osb\<close>

text \<open>
  The package consists of declarations only: a block of error variables, the data shapes of
  the Open Service Broker API and the interface \<open>OpenServiceBroker\<close>. Claims about what is
  declared are settled on a table of those declarations: a Go type is a term of \<open>go_type\<close>,
  a struct is its list of fields in source order, an interface its list of method
  signatures in source order. JSON tags select no behaviour here and are left out.
\<close>

subsection \<open>Error variables (types.go, the \<open>var\<close> block)\<close>

text \<open>
  Every variable of the block is initialised by its own call of \<open>errors.New\<close>, which
  allocates a fresh error object holding the text. An error value is therefore the pair of
  the allocation (numbered by position in the block) and the text; Go compares such values
  by the allocation.
\<close>

type_synonym error_value = "nat \<times> string"

definition error_vars :: "(string \<times> string) list" where
  "error_vars =
    [(''ErrorAlreadyProvisioned'', ''already provisioned''),
     (''ErrorDuplicate'', ''duplicate instance''),
     (''ErrorNotFound'', ''not found''),
     (''ErrorBindingExists'', ''binding exists''),
     (''ErrorProvisionInProgress'', ''provision in progress''),
     (''ErrorDeprovisionInProgress'', ''deprovision in progress''),
     (''ErrorUpdateInProgress'', ''update in progress''),
     (''ErrorPlanNotFound'', ''plan not found''),
     (''ErrorParameterNotUpdatable'', ''parameter not updatable''),
     (''ErrorParameterNotFound'', ''parameter not found''),
     (''ErrorPlanUpdateNotPossible'', ''plan update not possible''),
     (''ErrorForbidden'', ''User does not have sufficient permissions'')]"

fun lookup_var :: "nat \<Rightarrow> (string \<times> string) list \<Rightarrow> string \<Rightarrow> error_value option" where
  "lookup_var i [] v = None"
| "lookup_var i ((n, msg) # ds) v = (if n = v then Some (i, msg) else lookup_var (Suc i) ds v)"

definition declared_error :: "string \<Rightarrow> error_value option" where
  "declared_error v = lookup_var 0 error_vars v"

text \<open>
  The kinds of the error taxonomy. \<open>AdapterFailure\<close> carries what the Provisioner Adapter
  reported. The variable that stands for a kind is named \<open>Error\<close> followed by the kind.
\<close>

datatype error_kind =
    NotFound | Duplicate | AlreadyProvisioned | BindingExists
  | ProvisionInProgress | DeprovisionInProgress | UpdateInProgress
  | PlanNotFound | ParameterNotFound | ParameterNotUpdatable
  | PlanUpdateNotPossible | Forbidden | AdapterFailure string

fun kind_name :: "error_kind \<Rightarrow> string" where
  "kind_name NotFound = ''NotFound''"
| "kind_name Duplicate = ''Duplicate''"
| "kind_name AlreadyProvisioned = ''AlreadyProvisioned''"
| "kind_name BindingExists = ''BindingExists''"
| "kind_name ProvisionInProgress = ''ProvisionInProgress''"
| "kind_name DeprovisionInProgress = ''DeprovisionInProgress''"
| "kind_name UpdateInProgress = ''UpdateInProgress''"
| "kind_name PlanNotFound = ''PlanNotFound''"
| "kind_name ParameterNotFound = ''ParameterNotFound''"
| "kind_name ParameterNotUpdatable = ''ParameterNotUpdatable''"
| "kind_name PlanUpdateNotPossible = ''PlanUpdateNotPossible''"
| "kind_name Forbidden = ''Forbidden''"
| "kind_name (AdapterFailure m) = ''AdapterFailure''"

definition error_of_kind :: "error_kind \<Rightarrow> error_value option" where
  "error_of_kind k = declared_error (''Error'' @ kind_name k)"

fun is_adapter_failure :: "error_kind \<Rightarrow> bool" where
  "is_adapter_failure (AdapterFailure m) = True"
| "is_adapter_failure k = False"

subsection \<open>Types (types.go)\<close>

datatype go_type =
    TBool
  | TString
  | TError
  | TInterface
  | TNamed string
  | TPtr go_type
  | TSlice go_type
  | TMap go_type go_type
  | TStruct "(string \<times> go_type) list"

definition type_decls :: "(string \<times> go_type) list" where
  "type_decls =
    [(''Parameters'', TMap TString TInterface),
     (''Context'', TStruct [(''Platform'', TString), (''Namespace'', TString)]),
     (''ServiceInstance'', TStruct
        [(''ID'', TNamed ''uuid.UUID''), (''PlanID'', TNamed ''uuid.UUID''),
         (''Context'', TPtr (TNamed ''Context'')),
         (''Parameters'', TPtr (TNamed ''Parameters'')),
         (''BindingIDs'', TMap TString TBool)]),
     (''BindInstance'', TStruct
        [(''ID'', TNamed ''uuid.UUID''), (''ServiceID'', TNamed ''uuid.UUID''),
         (''Parameters'', TPtr (TNamed ''Parameters''))]),
     (''DashboardClient'', TStruct
        [(''ID'', TString), (''Secret'', TString), (''RedirectURI'', TString)]),
     (''Service'', TStruct
        [(''Name'', TString), (''ID'', TString), (''Description'', TString),
         (''Tags'', TSlice TString), (''Requires'', TSlice TString), (''Bindable'', TBool),
         (''Metadata'', TMap TString TInterface),
         (''DashboardClient'', TPtr (TNamed ''DashboardClient'')),
         (''PlanUpdatable'', TBool), (''Plans'', TSlice (TNamed ''Plan''))]),
     (''Plan'', TStruct
        [(''ID'', TString), (''Name'', TString), (''Description'', TString),
         (''Metadata'', TMap TString TInterface), (''Free'', TBool), (''Bindable'', TBool),
         (''Schemas'', TNamed ''Schema''), (''UpdatesTo'', TSlice TString)]),
     (''ServiceInstanceSchema'', TStruct
        [(''Create'', TMap TString (TPtr (TNamed ''schema.Schema''))),
         (''Update'', TMap TString (TPtr (TNamed ''schema.Schema'')))]),
     (''ServiceBindingSchema'', TStruct
        [(''Create'', TMap TString (TPtr (TNamed ''schema.Schema'')))]),
     (''Schema'', TStruct
        [(''ServiceInstance'', TNamed ''ServiceInstanceSchema''),
         (''ServiceBinding'', TNamed ''ServiceBindingSchema'')]),
     (''CatalogResponse'', TStruct [(''Services'', TSlice (TNamed ''Service''))]),
     (''ProvisionRequest'', TStruct
        [(''OrganizationID'', TNamed ''uuid.UUID''), (''PlanID'', TString),
         (''ServiceID'', TString), (''SpaceID'', TNamed ''uuid.UUID''),
         (''Context'', TNamed ''Context''), (''Parameters'', TNamed ''Parameters''),
         (''AcceptsIncomplete'', TBool)]),
     (''ProvisionResponse'', TStruct [(''DashboardURL'', TString), (''Operation'', TString)]),
     (''DeprovisionResponse'', TStruct [(''Operation'', TString)]),
     (''BindRequest'', TStruct
        [(''ServiceID'', TString), (''PlanID'', TString), (''AppID'', TNamed ''uuid.UUID''),
         (''BindResource'', TStruct [(''AppID'', TNamed ''uuid.UUID''), (''Route'', TString)]),
         (''Parameters'', TNamed ''Parameters'')]),
     (''BindResponse'', TStruct
        [(''Credentials'', TMap TString TInterface), (''SyslogDrainURL'', TString),
         (''RouteServiceURL'', TString), (''VolumeMounts'', TSlice TInterface),
         (''Operation'', TString)]),
     (''UnbindResponse'', TStruct [(''Operation'', TString)]),
     (''UpdateRequest'', TStruct
        [(''ServiceID'', TString), (''PlanID'', TString),
         (''Parameters'', TMap TString TString),
         (''PreviousValues'', TStruct
            [(''PlanID'', TString), (''ServiceID'', TString),
             (''OrganizationID'', TNamed ''uuid.UUID''), (''SpaceID'', TNamed ''uuid.UUID'')]),
         (''Context'', TNamed ''Context''), (''AcceptsIncomplete'', TBool)]),
     (''UpdateResponse'', TStruct [(''Operation'', TString)]),
     (''LastOperationRequest'', TStruct
        [(''ServiceID'', TString), (''PlanID'', TString), (''Operation'', TString)]),
     (''LastOperationResponse'', TStruct [(''State'', TString), (''Description'', TString)]),
     (''ServiceInstanceResponse'', TStruct
        [(''ServiceID'', TString), (''PlanID'', TString), (''DashboardURL'', TString),
         (''Parameters'', TNamed ''Parameters'')]),
     (''ErrorResponse'', TStruct [(''Description'', TString)])]"

text \<open>A named type of the package stands for its declaration; one step of unfolding.\<close>

fun resolve :: "go_type \<Rightarrow> go_type" where
  "resolve (TNamed n) = (case map_of type_decls n of Some t \<Rightarrow> t | None \<Rightarrow> TNamed n)"
| "resolve t = t"

fun field_type :: "go_type \<Rightarrow> string \<Rightarrow> go_type option" where
  "field_type (TStruct fs) f = map_of fs f"
| "field_type t f = None"

fun map_value_type :: "go_type \<Rightarrow> go_type option" where
  "map_value_type (TMap k v) = Some v"
| "map_value_type t = None"

text \<open>The type of the values held by the field \<open>Parameters\<close> of a request struct.\<close>

definition parameter_value_type :: "string \<Rightarrow> go_type option" where
  "parameter_value_type req =
    (case field_type (resolve (TNamed req)) ''Parameters'' of
       None \<Rightarrow> None
     | Some t \<Rightarrow> map_value_type (resolve t))"

text \<open>
  The values a decoded request can hold, and which of them a value type admits:
  \<open>string\<close> admits strings only, \<open>interface{}\<close> admits every value.
\<close>

datatype go_value =
    VNil
  | VBool bool
  | VNumber int
  | VString string
  | VArray "go_value list"
  | VObject "(string \<times> go_value) list"

fun admits :: "go_type \<Rightarrow> go_value \<Rightarrow> bool" where
  "admits TInterface v = True"
| "admits TString (VString s) = True"
| "admits TBool (VBool b) = True"
| "admits t v = False"

subsection \<open>The interface (broker.go)\<close>

record method_sig =
  mname :: string
  params :: "go_type list"
  results :: "go_type list"

definition OpenServiceBroker :: "method_sig list" where
  "OpenServiceBroker =
    [\<lparr>mname = ''Catalog'', params = [],
      results = [TPtr (TNamed ''CatalogResponse''), TError]\<rparr>,
     \<lparr>mname = ''Provision'',
      params = [TNamed ''uuid.UUID'', TPtr (TNamed ''ProvisionRequest''), TBool,
                TNamed ''context.Context''],
      results = [TPtr (TNamed ''ProvisionResponse''), TError]\<rparr>,
     \<lparr>mname = ''Deprovision'',
      params = [TNamed ''ServiceInstance'', TString, TBool, TNamed ''context.Context''],
      results = [TPtr (TNamed ''DeprovisionResponse''), TError]\<rparr>,
     \<lparr>mname = ''Bind'',
      params = [TNamed ''ServiceInstance'', TNamed ''uuid.UUID'',
                TPtr (TNamed ''BindRequest''), TBool, TNamed ''context.Context''],
      results = [TPtr (TNamed ''BindResponse''), TBool, TError]\<rparr>,
     \<lparr>mname = ''Unbind'',
      params = [TNamed ''ServiceInstance'', TNamed ''BindInstance'', TString, TBool,
                TNamed ''context.Context''],
      results = [TPtr (TNamed ''UnbindResponse''), TError]\<rparr>,
     \<lparr>mname = ''Update'',
      params = [TNamed ''uuid.UUID'', TPtr (TNamed ''UpdateRequest''), TBool,
                TNamed ''context.Context''],
      results = [TPtr (TNamed ''UpdateResponse''), TError]\<rparr>,
     \<lparr>mname = ''LastOperation'',
      params = [TNamed ''uuid.UUID'', TPtr (TNamed ''LastOperationRequest'')],
      results = [TPtr (TNamed ''LastOperationResponse''), TError]\<rparr>,
     \<lparr>mname = ''GetServiceInstance'', params = [TNamed ''uuid.UUID''],
      results = [TPtr (TNamed ''ServiceInstance''), TError]\<rparr>,
     \<lparr>mname = ''GetBindInstance'', params = [TNamed ''uuid.UUID''],
      results = [TPtr (TNamed ''BindInstance''), TError]\<rparr>]"

text \<open>The nine operations the specification names, and the method that declares each.\<close>

datatype operation =
    CatalogListing | ProvisionOp | DeprovisionOp | BindOp | UnbindOp | UpdateOp
  | LastOperationPolling | InstanceLookup | BindingLookup

fun method_of :: "operation \<Rightarrow> string" where
  "method_of CatalogListing = ''Catalog''"
| "method_of ProvisionOp = ''Provision''"
| "method_of DeprovisionOp = ''Deprovision''"
| "method_of BindOp = ''Bind''"
| "method_of UnbindOp = ''Unbind''"
| "method_of UpdateOp = ''Update''"
| "method_of LastOperationPolling = ''LastOperation''"
| "method_of InstanceLookup = ''GetServiceInstance''"
| "method_of BindingLookup = ''GetBindInstance''"

fun state_mutating :: "operation \<Rightarrow> bool" where
  "state_mutating ProvisionOp = True"
| "state_mutating DeprovisionOp = True"
| "state_mutating BindOp = True"
| "state_mutating UnbindOp = True"
| "state_mutating UpdateOp = True"
| "state_mutating opn = False"

definition signature_of :: "operation \<Rightarrow> method_sig option" where
  "signature_of opn = find (\<lambda>m. mname m = method_of opn) OpenServiceBroker"

definition takes_accepts_incomplete :: "method_sig \<Rightarrow> bool" where
  "takes_accepts_incomplete m = (TBool \<in> set (params m))"

definition takes_context :: "method_sig \<Rightarrow> bool" where
  "takes_context m = (TNamed ''context.Context'' \<in> set (params m))"

fun response_and_error :: "go_type list \<Rightarrow> bool" where
  "response_and_error [TPtr (TNamed n), TError] = True"
| "response_and_error rs = False"

section \<open>The provisioning core\<close>

text \<open>
  The package declares the broker interface and implements none of its methods. The
  specification describes the component behind the interface: a Broker Orchestrator that
  coordinates an Instance Registry, an Operation Tracker and a Provisioner Adapter. The
  records of the first subsection are the structs of types.go. All functions after them
  are modelled from the specification, since the repository holds no code for them; each
  says so, and says what it had to fix where the specification leaves a point open.

  One broker call runs to its end before the next begins (the per-instance serialization
  the specification demands); a background task is one later step of its own. The
  cancellation context of the mutating methods bounds waiting only and selects no outcome
  in the specification, so it is no parameter here. The third result of \<open>Bind\<close>, a
  \<open>bool\<close> the specification never mentions, is left out as well.
\<close>

subsection \<open>Data shapes (types.go)\<close>

text \<open>
  A \<open>uuid.UUID\<close> is identified with its text form, which is also the key of
  \<open>BindingIDs\<close>. A pointer field is an \<open>option\<close>. \<open>Parameters\<close> is the map from
  names to arbitrary values; the parameters of an update request, a
  \<open>map[string]string\<close>, are the list of the decoded pairs. A \<open>*schema.Schema\<close> is kept
  as the decoded JSON value. Field names carry a prefix for their struct where two structs
  share a name.
\<close>

type_synonym uuid = string

type_synonym Parameters = "string \<rightharpoonup> go_value"

record Context =
  Platform :: string
  Namespace :: string

record ServiceInstance =
  si_ID :: uuid
  si_PlanID :: uuid
  si_Context :: "Context option"
  si_Parameters :: "Parameters option"
  si_BindingIDs :: "string \<rightharpoonup> bool"

record BindInstance =
  bi_ID :: uuid
  bi_ServiceID :: uuid
  bi_Parameters :: "Parameters option"

record ProvisionRequest =
  preq_OrganizationID :: uuid
  preq_PlanID :: string
  preq_ServiceID :: string
  preq_SpaceID :: uuid
  preq_Context :: Context
  preq_Parameters :: Parameters
  preq_AcceptsIncomplete :: bool

record ProvisionResponse =
  pres_DashboardURL :: string
  pres_Operation :: string

record DeprovisionResponse =
  dres_Operation :: string

record BindResource =
  AppID :: uuid
  Route :: string

record BindRequest =
  breq_ServiceID :: string
  breq_PlanID :: string
  breq_AppID :: uuid
  breq_BindResource :: BindResource
  breq_Parameters :: Parameters

record BindResponse =
  bres_Credentials :: "string \<rightharpoonup> go_value"
  bres_SyslogDrainURL :: string
  bres_RouteServiceURL :: string
  bres_VolumeMounts :: "go_value list"
  bres_Operation :: string

record UnbindResponse =
  ubres_Operation :: string

record PreviousValues =
  pv_PlanID :: string
  pv_ServiceID :: string
  pv_OrganizationID :: uuid
  pv_SpaceID :: uuid

record UpdateRequest =
  ureq_ServiceID :: string
  ureq_PlanID :: string
  ureq_Parameters :: "(string \<times> string) list"
  ureq_PreviousValues :: PreviousValues
  ureq_Context :: Context
  ureq_AcceptsIncomplete :: bool

record UpdateResponse =
  ures_Operation :: string

record LastOperationRequest =
  lreq_ServiceID :: string
  lreq_PlanID :: string
  lreq_Operation :: string

definition LastOperationStateInProgress :: string where
  "LastOperationStateInProgress = ''in progress''"

definition LastOperationStateSucceeded :: string where
  "LastOperationStateSucceeded = ''succeeded''"

definition LastOperationStateFailed :: string where
  "LastOperationStateFailed = ''failed''"

record LastOperationResponse =
  lres_State :: string
  lres_Description :: string

type_synonym json_schema = go_value

record DashboardClient =
  dc_ID :: string
  dc_Secret :: string
  dc_RedirectURI :: string

record ServiceInstanceSchema =
  sis_Create :: "string \<rightharpoonup> json_schema"
  sis_Update :: "string \<rightharpoonup> json_schema"

record ServiceBindingSchema =
  sbs_Create :: "string \<rightharpoonup> json_schema"

record Schema =
  sc_ServiceInstance :: ServiceInstanceSchema
  sc_ServiceBinding :: ServiceBindingSchema

record Plan =
  pl_ID :: string
  pl_Name :: string
  pl_Description :: string
  pl_Metadata :: "string \<rightharpoonup> go_value"
  pl_Free :: bool
  pl_Bindable :: bool
  pl_Schemas :: Schema
  pl_UpdatesTo :: "string list"

record Service =
  sv_Name :: string
  sv_ID :: string
  sv_Description :: string
  sv_Tags :: "string list"
  sv_Requires :: "string list"
  sv_Bindable :: bool
  sv_Metadata :: "string \<rightharpoonup> go_value"
  sv_DashboardClient :: "DashboardClient option"
  sv_PlanUpdatable :: bool
  sv_Plans :: "Plan list"

record CatalogResponse =
  Services :: "Service list"

subsection \<open>Registry\<close>

text \<open>
  Modelled from the spec: the records the Registry holds, which the repository does not
  declare. An instance record is the \<open>ServiceInstance\<close> with its lifecycle state and the
  dashboard URL that provisioning produced (the prior result an idempotent call returns); a
  binding record is the \<open>BindInstance\<close> with its state and credentials. The states
  \<open>ABSENT\<close> and \<open>GONE\<close> are the absence of a record.
\<close>

datatype lifecycle = PROVISIONING | PROVISIONED | DEPROVISIONING | UPDATING

datatype binding_state = BINDING | BOUND | UNBINDING

record instance_record =
  inst :: ServiceInstance
  lstate :: lifecycle
  dashboard :: string

record binding_record =
  binding :: BindInstance
  bstate :: binding_state
  credentials :: "string \<rightharpoonup> go_value"

text \<open>
  Modelled from the spec: the Registry contract \<open>Get\<close>, \<open>Put\<close>, \<open>Update\<close>,
  \<open>Delete\<close> of section 4.1, the same for instances and for bindings. No registry
  implementation is in the repository.
\<close>

definition reg_Get :: "('k \<rightharpoonup> 'v) \<Rightarrow> 'k \<Rightarrow> error_kind + 'v" where
  "reg_Get reg k = (case reg k of None \<Rightarrow> Inl NotFound | Some v \<Rightarrow> Inr v)"

definition reg_Put :: "('k \<rightharpoonup> 'v) \<Rightarrow> 'k \<Rightarrow> 'v \<Rightarrow> error_kind + ('k \<rightharpoonup> 'v)" where
  "reg_Put reg k v = (case reg k of None \<Rightarrow> Inr (reg(k \<mapsto> v)) | Some w \<Rightarrow> Inl Duplicate)"

definition reg_Update :: "('k \<rightharpoonup> 'v) \<Rightarrow> 'k \<Rightarrow> ('v \<Rightarrow> 'v) \<Rightarrow> error_kind + ('k \<rightharpoonup> 'v)" where
  "reg_Update reg k f = (case reg k of None \<Rightarrow> Inl NotFound | Some v \<Rightarrow> Inr (reg(k \<mapsto> f v)))"

definition reg_Delete :: "('k \<rightharpoonup> 'v) \<Rightarrow> 'k \<Rightarrow> error_kind + ('k \<rightharpoonup> 'v)" where
  "reg_Delete reg k = (case reg k of None \<Rightarrow> Inl NotFound | Some v \<Rightarrow> Inr (reg(k := None)))"

subsection \<open>Operation Tracker\<close>

text \<open>
  Modelled from the spec: the Operation Record and the Tracker contract of section 4.2
  (\<open>Begin\<close>, \<open>Complete\<close>, \<open>Status\<close>), absent from the repository. Tokens are numbered
  in the order of issue, so that no token is issued twice; that they cannot be guessed is
  not modelled. \<open>Begin\<close> refuses with the kind of the unfinished operation it found (the
  specification's \<open>OperationInProgress\<close>); \<open>Complete\<close> answers \<open>None\<close> when the
  token is unknown or the record already holds another outcome.
\<close>

datatype operation_kind = KProvision | KDeprovision | KBind | KUnbind | KUpdate

datatype operation_state = InProgress | Succeeded | Failed

record OperationRecord =
  target :: uuid
  kind :: operation_kind
  ostate :: operation_state
  description :: string

record Tracker =
  records :: "(string \<times> OperationRecord) list"
  issued :: nat

definition token_of :: "nat \<Rightarrow> string" where
  "token_of n = replicate (Suc n) (CHR ''o'')"

definition unfinished :: "Tracker \<Rightarrow> uuid \<Rightarrow> OperationRecord option" where
  "unfinished t x =
    (case filter (\<lambda>(tok, r). target r = x \<and> ostate r = InProgress) (records t) of
       [] \<Rightarrow> None
     | (tok, r) # rest \<Rightarrow> Some r)"

definition Begin :: "Tracker \<Rightarrow> uuid \<Rightarrow> operation_kind \<Rightarrow> operation_kind + (string \<times> Tracker)" where
  "Begin t x k =
    (case unfinished t x of
       Some r \<Rightarrow> Inl (kind r)
     | None \<Rightarrow>
         Inr (token_of (issued t),
              \<lparr>records = (token_of (issued t),
                          \<lparr>target = x, kind = k, ostate = InProgress, description = []\<rparr>)
                         # records t,
               issued = Suc (issued t)\<rparr>))"

fun set_outcome ::
  "string \<Rightarrow> operation_state \<Rightarrow> string \<Rightarrow> (string \<times> OperationRecord) list
     \<Rightarrow> (string \<times> OperationRecord) list" where
  "set_outcome tok st d [] = []"
| "set_outcome tok st d ((tok', r) # rs) =
     (if tok' = tok then (tok', r\<lparr>ostate := st, description := d\<rparr>) # rs
      else (tok', r) # set_outcome tok st d rs)"

definition Complete ::
  "Tracker \<Rightarrow> string \<Rightarrow> operation_state \<Rightarrow> string \<Rightarrow> Tracker option" where
  "Complete t tok st d =
    (case map_of (records t) tok of
       None \<Rightarrow> None
     | Some r \<Rightarrow>
         if ostate r = InProgress then Some (t\<lparr>records := set_outcome tok st d (records t)\<rparr>)
         else if ostate r = st then Some t
         else None)"

definition Status :: "Tracker \<Rightarrow> string \<Rightarrow> error_kind + OperationRecord" where
  "Status t tok = (case map_of (records t) tok of None \<Rightarrow> Inl NotFound | Some r \<Rightarrow> Inr r)"

text \<open>
  Modelled from the spec: the end of an Operation Record's life. A record is retained after
  completion until it is superseded or garbage-collected; when that happens is left open,
  so collection is an event that may strike any finished record at any time, and never an
  unfinished one.
\<close>

definition collect :: "Tracker \<Rightarrow> string \<Rightarrow> Tracker" where
  "collect t tok =
    t\<lparr>records := filter (\<lambda>(tok', r). \<not> (tok' = tok \<and> ostate r \<noteq> InProgress)) (records t)\<rparr>"

subsection \<open>Provisioner Adapter and catalog\<close>

text \<open>
  Modelled from the spec: the external collaborators, taken as parameters. The five
  functions of the Provisioner Adapter (section 4.3) may answer differently from call to
  call, so each takes the calls made so far; \<open>Inl\<close> or \<open>Some\<close> is the error it
  reports. The catalog is the \<open>CatalogResponse\<close> of types.go, with two predicates for
  what a plan's schemas say about a parameter. \<open>binding_busy\<close> is the taxonomy kind
  reported while a bind or unbind is unfinished, for which the specification names none.
\<close>

datatype adapter_call =
    CallCreate uuid
  | CallDestroy uuid
  | CallBind uuid uuid
  | CallUnbind uuid uuid
  | CallReconfigure uuid string

record collaborators =
  Create :: "adapter_call list \<Rightarrow> ServiceInstance \<Rightarrow> string + string"
  Destroy :: "adapter_call list \<Rightarrow> ServiceInstance \<Rightarrow> string option"
  AdapterBind :: "adapter_call list \<Rightarrow> ServiceInstance \<Rightarrow> BindInstance
                    \<Rightarrow> string + (string \<rightharpoonup> go_value)"
  AdapterUnbind :: "adapter_call list \<Rightarrow> ServiceInstance \<Rightarrow> BindInstance \<Rightarrow> string option"
  Reconfigure :: "adapter_call list \<Rightarrow> ServiceInstance \<Rightarrow> string \<Rightarrow> string option"
  catalog :: CatalogResponse
  recognized :: "Plan \<Rightarrow> string \<Rightarrow> bool"
  updatable :: "Plan \<Rightarrow> string \<Rightarrow> bool"
  binding_busy :: error_kind

subsection \<open>Broker Orchestrator\<close>

text \<open>
  Modelled from the spec: the state the Orchestrator coordinates. Besides the two stores it
  holds the dispatched background jobs, the log of Adapter calls (to count invocations) and
  the log of reported defects.
\<close>

datatype job =
    JProvision uuid
  | JDeprovision uuid
  | JBind uuid uuid
  | JUnbind uuid uuid
  | JUpdate uuid string "(string \<times> string) list"

record broker =
  instances :: "uuid \<rightharpoonup> instance_record"
  bindings :: "uuid \<rightharpoonup> binding_record"
  tracker :: Tracker
  jobs :: "(string \<times> job) list"
  adapter_calls :: "adapter_call list"
  defects :: "string list"

definition initial :: broker where
  "initial = \<lparr>instances = Map.empty, bindings = Map.empty,
              tracker = \<lparr>records = [], issued = 0\<rparr>, jobs = [], adapter_calls = [],
              defects = []\<rparr>"

text \<open>
  Modelled from the spec: the in-progress error that answers a request on an instance
  according to the instance's own state, and the taxonomy kind for a refusal of the
  Tracker.
\<close>

fun in_progress :: "lifecycle \<Rightarrow> error_kind option" where
  "in_progress PROVISIONING = Some ProvisionInProgress"
| "in_progress DEPROVISIONING = Some DeprovisionInProgress"
| "in_progress UPDATING = Some UpdateInProgress"
| "in_progress PROVISIONED = None"

fun busy :: "collaborators \<Rightarrow> operation_kind \<Rightarrow> error_kind" where
  "busy D KProvision = ProvisionInProgress"
| "busy D KDeprovision = DeprovisionInProgress"
| "busy D KUpdate = UpdateInProgress"
| "busy D KBind = binding_busy D"
| "busy D KUnbind = binding_busy D"

text \<open>
  Modelled from the spec: \<open>Provision\<close> (section 4.4). On an ID the Registry holds: an
  in-progress error while the instance is in transit, the prior result for identical
  parameters, \<open>AlreadyProvisioned\<close> otherwise. On an absent ID: with
  \<open>acceptsIncomplete\<close> the operation is registered, the instance stored as
  \<open>PROVISIONING\<close> and the token returned; without it the Adapter's \<open>Create\<close> runs
  within the call. A failed \<open>Create\<close> leaves the ID absent.
\<close>

definition called :: "adapter_call \<Rightarrow> broker \<Rightarrow> broker" where
  "called c s = s\<lparr>adapter_calls := adapter_calls s @ [c]\<rparr>"

definition new_instance :: "uuid \<Rightarrow> ProvisionRequest \<Rightarrow> ServiceInstance" where
  "new_instance x req =
    \<lparr>si_ID = x, si_PlanID = preq_PlanID req, si_Context = Some (preq_Context req),
     si_Parameters = Some (preq_Parameters req), si_BindingIDs = Map.empty\<rparr>"

definition Provision ::
  "collaborators \<Rightarrow> uuid \<Rightarrow> ProvisionRequest \<Rightarrow> bool \<Rightarrow> broker
     \<Rightarrow> (error_kind + ProvisionResponse) \<times> broker" where
  "Provision D x req acceptsIncomplete s =
    (case reg_Get (instances s) x of
       Inr r \<Rightarrow>
         (case in_progress (lstate r) of
            Some e \<Rightarrow> (Inl e, s)
          | None \<Rightarrow>
              if si_Parameters (inst r) = Some (preq_Parameters req)
              then (Inr \<lparr>pres_DashboardURL = dashboard r, pres_Operation = []\<rparr>, s)
              else (Inl AlreadyProvisioned, s))
     | Inl absent \<Rightarrow>
         if acceptsIncomplete then
           (case Begin (tracker s) x KProvision of
              Inl k \<Rightarrow> (Inl (busy D k), s)
            | Inr (tok, t) \<Rightarrow>
                (case reg_Put (instances s) x
                        \<lparr>inst = new_instance x req, lstate = PROVISIONING, dashboard = []\<rparr> of
                   Inl e \<Rightarrow> (Inl e, s)
                 | Inr reg \<Rightarrow>
                     (Inr \<lparr>pres_DashboardURL = [], pres_Operation = tok\<rparr>,
                      s\<lparr>instances := reg, tracker := t,
                        jobs := (tok, JProvision x) # jobs s\<rparr>)))
         else
           (case Create D (adapter_calls s) (new_instance x req) of
              Inl m \<Rightarrow> (Inl (AdapterFailure m), called (CallCreate x) s)
            | Inr url \<Rightarrow>
                (case reg_Put (instances s) x
                        \<lparr>inst = new_instance x req, lstate = PROVISIONED, dashboard = url\<rparr> of
                   Inl e \<Rightarrow> (Inl e, called (CallCreate x) s)
                 | Inr reg \<Rightarrow>
                     (Inr \<lparr>pres_DashboardURL = url, pres_Operation = []\<rparr>,
                      called (CallCreate x) (s\<lparr>instances := reg\<rparr>)))))"

text \<open>
  Modelled from the spec: \<open>Deprovision\<close> (section 4.4). An absent ID fails with
  \<open>NotFound\<close>. An instance on which an operation is in progress fails with the
  in-progress error of its state; this check comes first, since section 9 settles that a
  deprovision rejected because an update is in flight reports \<open>UpdateInProgress\<close>. An
  instance with a non-empty binding set fails with \<open>BindingExists\<close> unless the caller
  is the binding-cleanup path itself. Who calls is a parameter of the model, because the
  interface method has none for it. The specification says nothing more about the
  binding-cleanup path, so its call differs from any other in this one check, and the
  binding records are left as they are. The binding set is the one of the Registry record,
  not of the struct the caller passes. The \<open>string\<close> parameter selects nothing in the
  specification.
\<close>

datatype caller = Client | BindingCleanup

definition Deprovision ::
  "collaborators \<Rightarrow> caller \<Rightarrow> ServiceInstance \<Rightarrow> string \<Rightarrow> bool \<Rightarrow> broker
     \<Rightarrow> (error_kind + DeprovisionResponse) \<times> broker" where
  "Deprovision D c i planID acceptsIncomplete s =
    (case reg_Get (instances s) (si_ID i) of
       Inl e \<Rightarrow> (Inl e, s)
     | Inr r \<Rightarrow>
         (case in_progress (lstate r) of
            Some e \<Rightarrow> (Inl e, s)
          | None \<Rightarrow>
              if dom (si_BindingIDs (inst r)) \<noteq> {} \<and> c \<noteq> BindingCleanup
              then (Inl BindingExists, s)
              else if acceptsIncomplete then
                (case Begin (tracker s) (si_ID i) KDeprovision of
                   Inl k \<Rightarrow> (Inl (busy D k), s)
                 | Inr (tok, t) \<Rightarrow>
                     (case reg_Update (instances s) (si_ID i)
                             (\<lambda>r. r\<lparr>lstate := DEPROVISIONING\<rparr>) of
                        Inl e \<Rightarrow> (Inl e, s)
                      | Inr reg \<Rightarrow>
                          (Inr \<lparr>dres_Operation = tok\<rparr>,
                           s\<lparr>instances := reg, tracker := t,
                             jobs := (tok, JDeprovision (si_ID i)) # jobs s\<rparr>)))
              else
                (case Destroy D (adapter_calls s) (inst r) of
                   Some m \<Rightarrow> (Inl (AdapterFailure m), called (CallDestroy (si_ID i)) s)
                 | None \<Rightarrow>
                     (case reg_Delete (instances s) (si_ID i) of
                        Inl e \<Rightarrow> (Inl e, called (CallDestroy (si_ID i)) s)
                      | Inr reg \<Rightarrow>
                          (Inr \<lparr>dres_Operation = []\<rparr>,
                           called (CallDestroy (si_ID i)) (s\<lparr>instances := reg\<rparr>))))))"

text \<open>
  Modelled from the spec: storing and removing a binding. A binding ID joins the binding
  set of its instance when the binding record is stored and leaves it when the record is
  deleted.
\<close>

definition add_binding :: "string \<Rightarrow> instance_record \<Rightarrow> instance_record" where
  "add_binding b r = r\<lparr>inst := (inst r)\<lparr>si_BindingIDs := (si_BindingIDs (inst r))(b \<mapsto> True)\<rparr>\<rparr>"

definition remove_binding :: "string \<Rightarrow> instance_record \<Rightarrow> instance_record" where
  "remove_binding b r = r\<lparr>inst := (inst r)\<lparr>si_BindingIDs := (si_BindingIDs (inst r))(b := None)\<rparr>\<rparr>"

definition attach :: "uuid \<Rightarrow> binding_record \<Rightarrow> broker \<Rightarrow> error_kind + broker" where
  "attach x br s =
    (case reg_Put (bindings s) (bi_ID (binding br)) br of
       Inl e \<Rightarrow> Inl e
     | Inr bs \<Rightarrow>
         (case reg_Update (instances s) x (add_binding (bi_ID (binding br))) of
            Inl e \<Rightarrow> Inl e
          | Inr is \<Rightarrow> Inr (s\<lparr>instances := is, bindings := bs\<rparr>)))"

definition detach :: "uuid \<Rightarrow> uuid \<Rightarrow> broker \<Rightarrow> error_kind + broker" where
  "detach x b s =
    (case reg_Delete (bindings s) b of
       Inl e \<Rightarrow> Inl e
     | Inr bs \<Rightarrow>
         (case reg_Update (instances s) x (remove_binding b) of
            Inl e \<Rightarrow> Inl e
          | Inr is \<Rightarrow> Inr (s\<lparr>instances := is, bindings := bs\<rparr>)))"

text \<open>
  Modelled from the spec: \<open>Bind\<close>. The instance must be \<open>PROVISIONED\<close>; an existing
  binding ID succeeds with the stored credentials for identical parameters and fails with
  \<open>BindingExists\<close> otherwise; a new binding is bound within the call or accepted and
  stored as \<open>BINDING\<close>.
\<close>

definition bind_response :: "(string \<rightharpoonup> go_value) \<Rightarrow> string \<Rightarrow> BindResponse" where
  "bind_response creds tok =
    \<lparr>bres_Credentials = creds, bres_SyslogDrainURL = [], bres_RouteServiceURL = [],
     bres_VolumeMounts = [], bres_Operation = tok\<rparr>"

definition new_binding :: "uuid \<Rightarrow> uuid \<Rightarrow> BindRequest \<Rightarrow> BindInstance" where
  "new_binding x b req = \<lparr>bi_ID = b, bi_ServiceID = x, bi_Parameters = Some (breq_Parameters req)\<rparr>"

definition Bind ::
  "collaborators \<Rightarrow> ServiceInstance \<Rightarrow> uuid \<Rightarrow> BindRequest \<Rightarrow> bool \<Rightarrow> broker
     \<Rightarrow> (error_kind + BindResponse) \<times> broker" where
  "Bind D i b req acceptsIncomplete s =
    (case reg_Get (instances s) (si_ID i) of
       Inl e \<Rightarrow> (Inl e, s)
     | Inr r \<Rightarrow>
         (case in_progress (lstate r) of
            Some e \<Rightarrow> (Inl e, s)
          | None \<Rightarrow>
              (case reg_Get (bindings s) b of
                 Inr br \<Rightarrow>
                   if bi_Parameters (binding br) = Some (breq_Parameters req)
                   then (Inr (bind_response (credentials br) []), s)
                   else (Inl BindingExists, s)
               | Inl absent \<Rightarrow>
                   if acceptsIncomplete then
                     (case Begin (tracker s) (si_ID i) KBind of
                        Inl k \<Rightarrow> (Inl (busy D k), s)
                      | Inr (tok, t) \<Rightarrow>
                          (case attach (si_ID i)
                                  \<lparr>binding = new_binding (si_ID i) b req, bstate = BINDING,
                                   credentials = Map.empty\<rparr> s of
                             Inl e \<Rightarrow> (Inl e, s)
                           | Inr s' \<Rightarrow>
                               (Inr (bind_response Map.empty tok),
                                s'\<lparr>tracker := t, jobs := (tok, JBind (si_ID i) b) # jobs s\<rparr>)))
                   else
                     (case AdapterBind D (adapter_calls s) (inst r)
                             (new_binding (si_ID i) b req) of
                        Inl m \<Rightarrow> (Inl (AdapterFailure m), called (CallBind (si_ID i) b) s)
                      | Inr creds \<Rightarrow>
                          (case attach (si_ID i)
                                  \<lparr>binding = new_binding (si_ID i) b req, bstate = BOUND,
                                   credentials = creds\<rparr> s of
                             Inl e \<Rightarrow> (Inl e, called (CallBind (si_ID i) b) s)
                           | Inr s' \<Rightarrow>
                               (Inr (bind_response creds []),
                                called (CallBind (si_ID i) b) s'))))))"

text \<open>
  Modelled from the spec: \<open>Unbind\<close>. A binding is missing for the instance when the
  Registry holds none under that ID owned by the instance: \<open>NotFound\<close>. A binding that
  is still being bound or unbound is busy.
\<close>

definition Unbind ::
  "collaborators \<Rightarrow> ServiceInstance \<Rightarrow> BindInstance \<Rightarrow> string \<Rightarrow> bool \<Rightarrow> broker
     \<Rightarrow> (error_kind + UnbindResponse) \<times> broker" where
  "Unbind D i bi planID acceptsIncomplete s =
    (case reg_Get (instances s) (si_ID i) of
       Inl e \<Rightarrow> (Inl e, s)
     | Inr r \<Rightarrow>
         (case reg_Get (bindings s) (bi_ID bi) of
            Inl e \<Rightarrow> (Inl e, s)
          | Inr br \<Rightarrow>
              if bi_ServiceID (binding br) \<noteq> si_ID i then (Inl NotFound, s)
              else if bstate br \<noteq> BOUND then (Inl (binding_busy D), s)
              else if acceptsIncomplete then
                (case Begin (tracker s) (si_ID i) KUnbind of
                   Inl k \<Rightarrow> (Inl (busy D k), s)
                 | Inr (tok, t) \<Rightarrow>
                     (case reg_Update (bindings s) (bi_ID bi) (\<lambda>br. br\<lparr>bstate := UNBINDING\<rparr>) of
                        Inl e \<Rightarrow> (Inl e, s)
                      | Inr bs \<Rightarrow>
                          (Inr \<lparr>ubres_Operation = tok\<rparr>,
                           s\<lparr>bindings := bs, tracker := t,
                             jobs := (tok, JUnbind (si_ID i) (bi_ID bi)) # jobs s\<rparr>)))
              else
                (case AdapterUnbind D (adapter_calls s) (inst r) (binding br) of
                   Some m \<Rightarrow>
                     (Inl (AdapterFailure m), called (CallUnbind (si_ID i) (bi_ID bi)) s)
                 | None \<Rightarrow>
                     (case detach (si_ID i) (bi_ID bi) s of
                        Inl e \<Rightarrow> (Inl e, called (CallUnbind (si_ID i) (bi_ID bi)) s)
                      | Inr s' \<Rightarrow>
                          (Inr \<lparr>ubres_Operation = []\<rparr>,
                           called (CallUnbind (si_ID i) (bi_ID bi)) s')))))"

text \<open>
  Modelled from the spec: \<open>Update\<close>. The checks run in the order the specification
  lists them: the target plan exists, every named parameter is recognized, every named
  parameter is updatable, the catalog allows the transition from the current plan. On
  failure of the Adapter the instance keeps its last configuration.
\<close>

definition all_plans :: "collaborators \<Rightarrow> Plan list" where
  "all_plans D = concat (map sv_Plans (Services (catalog D)))"

definition find_plan :: "collaborators \<Rightarrow> string \<Rightarrow> Plan option" where
  "find_plan D p = find (\<lambda>pl. pl_ID pl = p) (all_plans D)"

definition update_allowed :: "collaborators \<Rightarrow> string \<Rightarrow> string \<Rightarrow> bool" where
  "update_allowed D cur new =
    (case find_plan D cur of None \<Rightarrow> False | Some p \<Rightarrow> new \<in> set (pl_UpdatesTo p))"

definition merged :: "Parameters option \<Rightarrow> (string \<times> string) list \<Rightarrow> Parameters" where
  "merged old ps =
    (case old of None \<Rightarrow> Map.empty | Some m \<Rightarrow> m) ++ map_of (map (\<lambda>(k, v). (k, VString v)) ps)"

definition apply_update :: "string \<Rightarrow> (string \<times> string) list \<Rightarrow> instance_record \<Rightarrow> instance_record" where
  "apply_update new ps r =
    r\<lparr>inst := (inst r)\<lparr>si_PlanID := new, si_Parameters := Some (merged (si_Parameters (inst r)) ps)\<rparr>,
      lstate := PROVISIONED\<rparr>"

definition Update ::
  "collaborators \<Rightarrow> uuid \<Rightarrow> UpdateRequest \<Rightarrow> bool \<Rightarrow> broker
     \<Rightarrow> (error_kind + UpdateResponse) \<times> broker" where
  "Update D x req acceptsIncomplete s =
    (case reg_Get (instances s) x of
       Inl e \<Rightarrow> (Inl e, s)
     | Inr r \<Rightarrow>
         (case in_progress (lstate r) of
            Some e \<Rightarrow> (Inl e, s)
          | None \<Rightarrow>
              (case find_plan D (ureq_PlanID req) of
                 None \<Rightarrow> (Inl PlanNotFound, s)
               | Some new \<Rightarrow>
                   if list_ex (\<lambda>(k, v). \<not> recognized D new k) (ureq_Parameters req)
                   then (Inl ParameterNotFound, s)
                   else if list_ex (\<lambda>(k, v). \<not> updatable D new k) (ureq_Parameters req)
                   then (Inl ParameterNotUpdatable, s)
                   else if \<not> update_allowed D (si_PlanID (inst r)) (pl_ID new)
                   then (Inl PlanUpdateNotPossible, s)
                   else if acceptsIncomplete then
                     (case Begin (tracker s) x KUpdate of
                        Inl k \<Rightarrow> (Inl (busy D k), s)
                      | Inr (tok, t) \<Rightarrow>
                          (case reg_Update (instances s) x (\<lambda>r. r\<lparr>lstate := UPDATING\<rparr>) of
                             Inl e \<Rightarrow> (Inl e, s)
                           | Inr reg \<Rightarrow>
                               (Inr \<lparr>ures_Operation = tok\<rparr>,
                                s\<lparr>instances := reg, tracker := t,
                                  jobs := (tok, JUpdate x (pl_ID new) (ureq_Parameters req))
                                          # jobs s\<rparr>)))
                   else
                     (case Reconfigure D (adapter_calls s) (inst r) (pl_ID new) of
                        Some m \<Rightarrow>
                          (Inl (AdapterFailure m), called (CallReconfigure x (pl_ID new)) s)
                      | None \<Rightarrow>
                          (case reg_Update (instances s) x
                                  (apply_update (pl_ID new) (ureq_Parameters req)) of
                             Inl e \<Rightarrow> (Inl e, called (CallReconfigure x (pl_ID new)) s)
                           | Inr reg \<Rightarrow>
                               (Inr \<lparr>ures_Operation = []\<rparr>,
                                called (CallReconfigure x (pl_ID new))
                                  (s\<lparr>instances := reg\<rparr>)))))))"

text \<open>
  Modelled from the spec: \<open>LastOperation\<close> returns the Tracker's status for the token
  of the request, and \<open>NotFound\<close> for a token the Tracker does not hold. The three
  state texts are the constants of types.go.
\<close>

fun state_text :: "operation_state \<Rightarrow> string" where
  "state_text InProgress = LastOperationStateInProgress"
| "state_text Succeeded = LastOperationStateSucceeded"
| "state_text Failed = LastOperationStateFailed"

definition LastOperation ::
  "uuid \<Rightarrow> LastOperationRequest \<Rightarrow> broker \<Rightarrow> error_kind + LastOperationResponse" where
  "LastOperation x req s =
    (case Status (tracker s) (lreq_Operation req) of
       Inl e \<Rightarrow> Inl e
     | Inr r \<Rightarrow> Inr \<lparr>lres_State = state_text (ostate r), lres_Description = description r\<rparr>)"

text \<open>
  Modelled from the spec: the two lookups and the catalog listing, read from the Registry
  and the catalog.
\<close>

definition GetServiceInstance :: "uuid \<Rightarrow> broker \<Rightarrow> error_kind + ServiceInstance" where
  "GetServiceInstance x s =
    (case reg_Get (instances s) x of Inl e \<Rightarrow> Inl e | Inr r \<Rightarrow> Inr (inst r))"

definition GetBindInstance :: "uuid \<Rightarrow> broker \<Rightarrow> error_kind + BindInstance" where
  "GetBindInstance b s =
    (case reg_Get (bindings s) b of Inl e \<Rightarrow> Inl e | Inr br \<Rightarrow> Inr (binding br))"

definition Catalog :: "collaborators \<Rightarrow> error_kind + CatalogResponse" where
  "Catalog D = Inr (catalog D)"

subsection \<open>Background workers\<close>

text \<open>
  Modelled from the spec: the background task of an accepted operation. It makes the
  Adapter call, stores the result in the Registry and completes the Operation Record; the
  failure it records is what the Adapter reported. After a failure the instance or binding
  returns to the state before the request (a failed provision or bind leaves nothing
  behind). A job that does not find the record it was dispatched for reports a defect.
\<close>

definition conclude :: "string \<Rightarrow> operation_state \<Rightarrow> string \<Rightarrow> broker \<Rightarrow> broker" where
  "conclude tok st d s =
    (case Complete (tracker s) tok st d of
       Some t \<Rightarrow> s\<lparr>tracker := t\<rparr>
     | None \<Rightarrow> s\<lparr>defects := tok # defects s\<rparr>)"

definition defect :: "string \<Rightarrow> broker \<Rightarrow> broker" where
  "defect tok s = conclude tok Failed ''internal error'' (s\<lparr>defects := tok # defects s\<rparr>)"

fun perform :: "collaborators \<Rightarrow> string \<Rightarrow> job \<Rightarrow> broker \<Rightarrow> broker" where
  "perform D tok (JProvision x) s =
    (case instances s x of
       None \<Rightarrow> defect tok s
     | Some r \<Rightarrow>
         if lstate r \<noteq> PROVISIONING then defect tok s
         else
           (case Create D (adapter_calls s) (inst r) of
              Inr url \<Rightarrow>
                conclude tok Succeeded []
                  (called (CallCreate x)
                    (s\<lparr>instances := (instances s)(x \<mapsto> r\<lparr>lstate := PROVISIONED, dashboard := url\<rparr>)\<rparr>))
            | Inl m \<Rightarrow>
                conclude tok Failed m
                  (called (CallCreate x) (s\<lparr>instances := (instances s)(x := None)\<rparr>))))"
| "perform D tok (JDeprovision x) s =
    (case instances s x of
       None \<Rightarrow> defect tok s
     | Some r \<Rightarrow>
         if lstate r \<noteq> DEPROVISIONING then defect tok s
         else
           (case Destroy D (adapter_calls s) (inst r) of
              None \<Rightarrow>
                conclude tok Succeeded []
                  (called (CallDestroy x) (s\<lparr>instances := (instances s)(x := None)\<rparr>))
            | Some m \<Rightarrow>
                conclude tok Failed m
                  (called (CallDestroy x)
                    (s\<lparr>instances := (instances s)(x \<mapsto> r\<lparr>lstate := PROVISIONED\<rparr>)\<rparr>))))"
| "perform D tok (JBind x b) s =
    (case (instances s x, bindings s b) of
       (Some r, Some br) \<Rightarrow>
         if bstate br \<noteq> BINDING \<or> bi_ServiceID (binding br) \<noteq> x then defect tok s
         else
           (case AdapterBind D (adapter_calls s) (inst r) (binding br) of
              Inr creds \<Rightarrow>
                conclude tok Succeeded []
                  (called (CallBind x b)
                    (s\<lparr>bindings := (bindings s)(b \<mapsto> br\<lparr>bstate := BOUND, credentials := creds\<rparr>)\<rparr>))
            | Inl m \<Rightarrow>
                (case detach x b s of
                   Inl e \<Rightarrow> defect tok (called (CallBind x b) s)
                 | Inr s' \<Rightarrow> conclude tok Failed m (called (CallBind x b) s')))
     | other \<Rightarrow> defect tok s)"
| "perform D tok (JUnbind x b) s =
    (case (instances s x, bindings s b) of
       (Some r, Some br) \<Rightarrow>
         if bstate br \<noteq> UNBINDING \<or> bi_ServiceID (binding br) \<noteq> x then defect tok s
         else
           (case AdapterUnbind D (adapter_calls s) (inst r) (binding br) of
              None \<Rightarrow>
                (case detach x b s of
                   Inl e \<Rightarrow> defect tok (called (CallUnbind x b) s)
                 | Inr s' \<Rightarrow> conclude tok Succeeded [] (called (CallUnbind x b) s'))
            | Some m \<Rightarrow>
                conclude tok Failed m
                  (called (CallUnbind x b)
                    (s\<lparr>bindings := (bindings s)(b \<mapsto> br\<lparr>bstate := BOUND\<rparr>)\<rparr>)))
     | other \<Rightarrow> defect tok s)"
| "perform D tok (JUpdate x new ps) s =
    (case instances s x of
       None \<Rightarrow> defect tok s
     | Some r \<Rightarrow>
         if lstate r \<noteq> UPDATING then defect tok s
         else
           (case Reconfigure D (adapter_calls s) (inst r) new of
              None \<Rightarrow>
                conclude tok Succeeded []
                  (called (CallReconfigure x new)
                    (s\<lparr>instances := (instances s)(x \<mapsto> apply_update new ps r)\<rparr>))
            | Some m \<Rightarrow>
                conclude tok Failed m
                  (called (CallReconfigure x new)
                    (s\<lparr>instances := (instances s)(x \<mapsto> r\<lparr>lstate := PROVISIONED\<rparr>)\<rparr>))))"

definition run_job :: "collaborators \<Rightarrow> string \<Rightarrow> broker \<Rightarrow> broker" where
  "run_job D tok s =
    (case map_of (jobs s) tok of
       None \<Rightarrow> s
     | Some j \<Rightarrow> perform D tok j (s\<lparr>jobs := filter (\<lambda>(tok', j). tok' \<noteq> tok) (jobs s)\<rparr>))"

subsection \<open>Runs\<close>

text \<open>
  Modelled from the spec: a run of the broker. An event is a call of one of the nine
  methods (a deprovision comes from a client or from the binding-cleanup path), the
  completion of the background task of a token, or the collection of a finished Operation
  Record.
\<close>

datatype request =
    CatalogReq
  | ProvisionReq uuid ProvisionRequest bool
  | DeprovisionReq caller ServiceInstance string bool
  | BindReq ServiceInstance uuid BindRequest bool
  | UnbindReq ServiceInstance BindInstance string bool
  | UpdateReq uuid UpdateRequest bool
  | LastOperationReq uuid LastOperationRequest
  | GetServiceInstanceReq uuid
  | GetBindInstanceReq uuid

datatype event = Request request | Finish string | Collect string

fun serve :: "collaborators \<Rightarrow> request \<Rightarrow> broker \<Rightarrow> broker" where
  "serve D CatalogReq s = s"
| "serve D (ProvisionReq x req a) s = snd (Provision D x req a s)"
| "serve D (DeprovisionReq c i p a) s = snd (Deprovision D c i p a s)"
| "serve D (BindReq i b req a) s = snd (Bind D i b req a s)"
| "serve D (UnbindReq i bi p a) s = snd (Unbind D i bi p a s)"
| "serve D (UpdateReq x req a) s = snd (Update D x req a s)"
| "serve D (LastOperationReq x req) s = s"
| "serve D (GetServiceInstanceReq x) s = s"
| "serve D (GetBindInstanceReq b) s = s"

fun step :: "collaborators \<Rightarrow> event \<Rightarrow> broker \<Rightarrow> broker" where
  "step D (Request q) s = serve D q s"
| "step D (Finish tok) s = run_job D tok s"
| "step D (Collect tok) s = s\<lparr>tracker := collect (tracker s) tok\<rparr>"

fun run :: "collaborators \<Rightarrow> event list \<Rightarrow> broker \<Rightarrow> broker" where
  "run D [] s = s"
| "run D (ev # evs) s = run D evs (step D ev s)"

subsection \<open>Test doubles\<close>

text \<open>
  Collaborators for concrete runs: a catalog of one service with the plans \<open>P1\<close> and
  \<open>P2\<close>, of which \<open>P1\<close> can be updated to \<open>P2\<close>; an Adapter whose calls all
  succeed, one that refuses to create and one that refuses to bind; requests with no
  parameters.
\<close>

definition demo_plan :: "string \<Rightarrow> string list \<Rightarrow> Plan" where
  "demo_plan p ups =
    \<lparr>pl_ID = p, pl_Name = p, pl_Description = [], pl_Metadata = Map.empty, pl_Free = True,
     pl_Bindable = True,
     pl_Schemas = \<lparr>sc_ServiceInstance = \<lparr>sis_Create = Map.empty, sis_Update = Map.empty\<rparr>,
                   sc_ServiceBinding = \<lparr>sbs_Create = Map.empty\<rparr>\<rparr>,
     pl_UpdatesTo = ups\<rparr>"

definition demo_service :: Service where
  "demo_service =
    \<lparr>sv_Name = ''svc'', sv_ID = ''svc'', sv_Description = [], sv_Tags = [], sv_Requires = [],
     sv_Bindable = True, sv_Metadata = Map.empty, sv_DashboardClient = None,
     sv_PlanUpdatable = True, sv_Plans = [demo_plan ''P1'' [''P2''], demo_plan ''P2'' []]\<rparr>"

definition stub :: collaborators where
  "stub =
    \<lparr>Create = (\<lambda>cs i. Inr ''https://dashboard.example/i''),
     Destroy = (\<lambda>cs i. None),
     AdapterBind = (\<lambda>cs i b. Inr Map.empty),
     AdapterUnbind = (\<lambda>cs i b. None),
     Reconfigure = (\<lambda>cs i p. None),
     catalog = \<lparr>Services = [demo_service]\<rparr>,
     recognized = (\<lambda>p k. True),
     updatable = (\<lambda>p k. True),
     binding_busy = UpdateInProgress\<rparr>"

definition refusing_create :: collaborators where
  "refusing_create = stub\<lparr>Create := (\<lambda>cs i. Inl ''quota exceeded'')\<rparr>"

definition refusing_bind :: collaborators where
  "refusing_bind = stub\<lparr>AdapterBind := (\<lambda>cs i b. Inl ''quota exceeded'')\<rparr>"

definition update_to_P2 :: UpdateRequest where
  "update_to_P2 =
    \<lparr>ureq_ServiceID = ''svc'', ureq_PlanID = ''P2'', ureq_Parameters = [],
     ureq_PreviousValues = \<lparr>pv_PlanID = ''P1'', pv_ServiceID = ''svc'',
                            pv_OrganizationID = ''org'', pv_SpaceID = ''space''\<rparr>,
     ureq_Context = \<lparr>Platform = ''kubernetes'', Namespace = ''demo''\<rparr>,
     ureq_AcceptsIncomplete = True\<rparr>"

definition request_P1 :: "bool \<Rightarrow> ProvisionRequest" where
  "request_P1 a =
    \<lparr>preq_OrganizationID = ''org'', preq_PlanID = ''P1'', preq_ServiceID = ''svc'',
     preq_SpaceID = ''space'', preq_Context = \<lparr>Platform = ''kubernetes'', Namespace = ''demo''\<rparr>,
     preq_Parameters = Map.empty, preq_AcceptsIncomplete = a\<rparr>"

definition bind_request :: BindRequest where
  "bind_request =
    \<lparr>breq_ServiceID = ''svc'', breq_PlanID = ''P1'', breq_AppID = ''app'',
     breq_BindResource = \<lparr>AppID = ''app'', Route = []\<rparr>, breq_Parameters = Map.empty\<rparr>"

definition handle :: "uuid \<Rightarrow> ServiceInstance" where
  "handle x = \<lparr>si_ID = x, si_PlanID = ''P1'', si_Context = None, si_Parameters = None,
               si_BindingIDs = Map.empty\<rparr>"

subsection \<open>Outcomes and invariants\<close>



text \<open>The binding set the Registry holds for an instance ID.\<close>

definition binding_set :: "broker \<Rightarrow> uuid \<Rightarrow> string set" where
  "binding_set s x =
    (case instances s x of None \<Rightarrow> {} | Some r \<Rightarrow> dom (si_BindingIDs (inst r)))"



definition owned :: "broker \<Rightarrow> bool" where
  "owned s =
    (\<forall>b br. bindings s b = Some br \<longrightarrow>
       (\<exists>r. instances s (bi_ServiceID (binding br)) = Some r \<and> b \<in> dom (si_BindingIDs (inst r))))"

definition unbound_in_transit :: "broker \<Rightarrow> bool" where
  "unbound_in_transit s =
    (\<forall>x r. instances s x = Some r \<longrightarrow> lstate r = PROVISIONING \<or> lstate r = DEPROVISIONING \<longrightarrow>
       dom (si_BindingIDs (inst r)) = {})"

definition consistent :: "broker \<Rightarrow> bool" where
  "consistent s = (owned s \<and> unbound_in_transit s)"



subsection \<open>Operation tokens and their records\<close>

text \<open>
  The operation token a call returns: the \<open>Operation\<close> field of its response, empty
  when the call fails or hands out no token.
\<close>

fun operation_token :: "collaborators \<Rightarrow> request \<Rightarrow> broker \<Rightarrow> string" where
  "operation_token D (ProvisionReq x req a) s =
    (case fst (Provision D x req a s) of Inr resp \<Rightarrow> pres_Operation resp | Inl e \<Rightarrow> [])"
| "operation_token D (DeprovisionReq c i p a) s =
    (case fst (Deprovision D c i p a s) of Inr resp \<Rightarrow> dres_Operation resp | Inl e \<Rightarrow> [])"
| "operation_token D (BindReq i b req a) s =
    (case fst (Bind D i b req a s) of Inr resp \<Rightarrow> bres_Operation resp | Inl e \<Rightarrow> [])"
| "operation_token D (UnbindReq i bi p a) s =
    (case fst (Unbind D i bi p a s) of Inr resp \<Rightarrow> ubres_Operation resp | Inl e \<Rightarrow> [])"
| "operation_token D (UpdateReq x req a) s =
    (case fst (Update D x req a s) of Inr resp \<Rightarrow> ures_Operation resp | Inl e \<Rightarrow> [])"
| "operation_token D q s = []"

text \<open>
  What a call does to the Tracker and the job queue: nothing, with no token handed out, or
  one new in-progress record and one new job under the token it returns.
\<close>

definition registered :: "Tracker \<Rightarrow> uuid \<Rightarrow> operation_kind \<Rightarrow> Tracker" where
  "registered t x k =
    \<lparr>records = (token_of (issued t),
                \<lparr>target = x, kind = k, ostate = InProgress, description = []\<rparr>) # records t,
     issued = Suc (issued t)\<rparr>"

definition quiet :: "collaborators \<Rightarrow> request \<Rightarrow> broker \<Rightarrow> bool" where
  "quiet D q s =
    (tracker (serve D q s) = tracker s \<and> jobs (serve D q s) = jobs s \<and> operation_token D q s = [])"

definition accepting :: "collaborators \<Rightarrow> request \<Rightarrow> broker \<Rightarrow> bool" where
  "accepting D q s =
    (\<exists>x k j. tracker (serve D q s) = registered (tracker s) x k \<and>
       jobs (serve D q s) = (token_of (issued (tracker s)), j) # jobs s \<and>
       operation_token D q s = token_of (issued (tracker s)))"

text \<open>
  The Tracker after a worker has reported an outcome, whether or not the report is taken.
\<close>

definition completed :: "Tracker \<Rightarrow> string \<Rightarrow> operation_state \<Rightarrow> string \<Rightarrow> Tracker" where
  "completed t tok st d = (case Complete t tok st d of Some t' \<Rightarrow> t' | None \<Rightarrow> t)"

text \<open>
  Facts about one token in a state: it has been issued; its operation is pending (the job
  is queued and the record is in progress); its record holds a given state and
  description; it has been issued and the Tracker holds no record of it any more. A
  Tracker is well kept when its records have pairwise different tokens, all of them
  issued.
\<close>

definition issued_before :: "string \<Rightarrow> broker \<Rightarrow> bool" where
  "issued_before tok s = (\<exists>n < issued (tracker s). tok = token_of n)"

definition well_tracked :: "broker \<Rightarrow> bool" where
  "well_tracked s =
    (distinct (map fst (records (tracker s))) \<and>
     (\<forall>tok \<in> fst ` set (records (tracker s)). issued_before tok s))"

definition pending :: "string \<Rightarrow> broker \<Rightarrow> bool" where
  "pending tok s =
    (issued_before tok s \<and> map_of (jobs s) tok \<noteq> None \<and>
     (\<exists>r. map_of (records (tracker s)) tok = Some r \<and> ostate r = InProgress \<and> description r = []))"

definition recorded :: "string \<Rightarrow> operation_state \<Rightarrow> string \<Rightarrow> broker \<Rightarrow> bool" where
  "recorded tok st d s =
    (issued_before tok s \<and>
     (\<exists>r. map_of (records (tracker s)) tok = Some r \<and> ostate r = st \<and> description r = d))"

definition forgotten :: "string \<Rightarrow> broker \<Rightarrow> bool" where
  "forgotten tok s = (issued_before tok s \<and> map_of (records (tracker s)) tok = None)"

text \<open>Requests of concrete runs: an asynchronous provision, and a poll for a token.\<close>

definition poll :: "string \<Rightarrow> LastOperationRequest" where
  "poll tok = \<lparr>lreq_ServiceID = ''svc'', lreq_PlanID = ''P1'', lreq_Operation = tok\<rparr>"

section \<open>Properties of the declarations\<close>

lemma all_operations: "(UNIV :: operation set) =
  {CatalogListing, ProvisionOp, DeprovisionOp, BindOp, UnbindOp, UpdateOp,
   LastOperationPolling, InstanceLookup, BindingLookup}"
proof -
  have "opn \<in> {CatalogListing, ProvisionOp, DeprovisionOp, BindOp, UnbindOp, UpdateOp,
    LastOperationPolling, InstanceLookup, BindingLookup}" for opn
    by (cases opn) simp_all
  then show ?thesis by blast
qed

subsection \<open>The error taxonomy\<close>

lemma error_of_kind_values:
  "error_of_kind NotFound = Some (2, ''not found'')"
  "error_of_kind Duplicate = Some (1, ''duplicate instance'')"
  "error_of_kind AlreadyProvisioned = Some (0, ''already provisioned'')"
  "error_of_kind BindingExists = Some (3, ''binding exists'')"
  "error_of_kind ProvisionInProgress = Some (4, ''provision in progress'')"
  "error_of_kind DeprovisionInProgress = Some (5, ''deprovision in progress'')"
  "error_of_kind UpdateInProgress = Some (6, ''update in progress'')"
  "error_of_kind PlanNotFound = Some (7, ''plan not found'')"
  "error_of_kind ParameterNotFound = Some (9, ''parameter not found'')"
  "error_of_kind ParameterNotUpdatable = Some (8, ''parameter not updatable'')"
  "error_of_kind PlanUpdateNotPossible = Some (10, ''plan update not possible'')"
  "error_of_kind Forbidden = Some (11, ''User does not have sufficient permissions'')"
  "error_of_kind (AdapterFailure m) = None"
  by (simp_all add: error_of_kind_def declared_error_def error_vars_def)

text \<open>
  Claim C1, as the code has it: each of the twelve kinds of the taxonomy other than
  \<open>AdapterFailure\<close> has an error value declared by the package, and two such kinds that
  have the same error value are the same kind.
\<close>

theorem taxonomy_errors_declared_distinct:
  assumes "\<not> is_adapter_failure k" and "\<not> is_adapter_failure k'"
  shows "(\<exists>e. error_of_kind k = Some e) \<and> (error_of_kind k = error_of_kind k' \<longrightarrow> k = k')"
  using assms by (cases k; cases k') (simp_all add: error_of_kind_values)

theorem taxonomy_errors_declared_distinct_witness:
  "\<not> is_adapter_failure NotFound \<and> \<not> is_adapter_failure Duplicate \<and>
   error_of_kind NotFound = Some (2, ''not found'') \<and>
   error_of_kind NotFound \<noteq> error_of_kind Duplicate"
  using taxonomy_errors_declared_distinct [of NotFound Duplicate]
  by (simp add: error_of_kind_values)

text \<open>
  Claim C1 as stated fails at the thirteenth kind: the package declares no variable
  \<open>ErrorAdapterFailure\<close>, so an adapter failure has no declared error value.
\<close>

theorem adapter_failure_not_declared: "error_of_kind (AdapterFailure ''timeout'') = None"
  by (simp add: error_of_kind_values)

subsection \<open>The interface\<close>

lemma method_of_inj: "inj method_of"
proof (rule injI)
  fix a b assume "method_of a = method_of b"
  then show "a = b" by (cases a; cases b) simp_all
qed

lemma signatures:
  "signature_of CatalogListing = Some (OpenServiceBroker ! 0)"
  "signature_of ProvisionOp = Some (OpenServiceBroker ! 1)"
  "signature_of DeprovisionOp = Some (OpenServiceBroker ! 2)"
  "signature_of BindOp = Some (OpenServiceBroker ! 3)"
  "signature_of UnbindOp = Some (OpenServiceBroker ! 4)"
  "signature_of UpdateOp = Some (OpenServiceBroker ! 5)"
  "signature_of LastOperationPolling = Some (OpenServiceBroker ! 6)"
  "signature_of InstanceLookup = Some (OpenServiceBroker ! 7)"
  "signature_of BindingLookup = Some (OpenServiceBroker ! 8)"
  by (simp_all add: signature_of_def OpenServiceBroker_def)

text \<open>
  Claim C2: the interface declares nine methods with pairwise different names, and the
  names are exactly those of the nine operations (catalog listing, provision, deprovision,
  bind, unbind, update, last-operation polling, instance lookup, binding lookup), one
  method for each operation.
\<close>

theorem interface_has_exactly_nine_operations:
  "length OpenServiceBroker = 9 \<and> distinct (map mname OpenServiceBroker) \<and>
   set (map mname OpenServiceBroker) = range method_of \<and> inj method_of"
  by (simp add: method_of_inj all_operations OpenServiceBroker_def)

text \<open>
  Claim C3: the method of every operation has a \<open>bool\<close> parameter exactly when the
  operation is state-mutating (provision, deprovision, bind, unbind, update), and a
  \<open>context.Context\<close> parameter exactly when it is state-mutating; so the five mutating
  operations take both and the four others take neither.
\<close>

theorem mutating_operations_take_flag_and_context:
  "\<exists>m. signature_of opn = Some m \<and>
       takes_accepts_incomplete m = state_mutating opn \<and>
       takes_context m = state_mutating opn"
  by (cases opn)
    (simp_all add: signatures OpenServiceBroker_def takes_accepts_incomplete_def takes_context_def)

text \<open>
  Claim C9: the results of a method are a pointer to a named type followed by \<open>error\<close>
  for every operation except bind, and they are \<open>*BindResponse\<close>, \<open>bool\<close>, \<open>error\<close>
  for bind and for no other operation.
\<close>

theorem only_bind_returns_three_values:
  "\<exists>m. signature_of opn = Some m \<and>
       response_and_error (results m) = (opn \<noteq> BindOp) \<and>
       (results m = [TPtr (TNamed ''BindResponse''), TBool, TError]) = (opn = BindOp)"
  by (cases opn) (simp_all add: signatures OpenServiceBroker_def)

subsection \<open>Parameter values\<close>

lemma admits_string: "admits TString v = (\<exists>s. v = VString s)"
  by (cases v) simp_all

text \<open>
  Claim C10: the parameters of an update request are a \<open>map[string]string\<close>, those of a
  provision and of a bind request a \<open>map[string]interface{}\<close> (the type \<open>Parameters\<close>);
  a value admitted as an update parameter is a string, while every value is admitted as a
  provision or bind parameter.
\<close>

theorem update_parameters_are_strings:
  "parameter_value_type ''UpdateRequest'' = Some TString \<and>
   parameter_value_type ''ProvisionRequest'' = Some TInterface \<and>
   parameter_value_type ''BindRequest'' = Some TInterface \<and>
   (\<forall>v. admits TString v = (\<exists>s. v = VString s)) \<and>
   (\<forall>v. admits TInterface v)"
  by (simp add: admits_string parameter_value_type_def type_decls_def)

section \<open>Properties of the provisioning core\<close>

subsection \<open>The Registry stays consistent\<close>

lemma consistent_registry:
  "instances s' = instances s \<Longrightarrow> bindings s' = bindings s \<Longrightarrow> consistent s' = consistent s"
  by (simp add: consistent_def owned_def unbound_in_transit_def)


lemma consistent_called [simp]: "consistent (called c s) = consistent s"
  by (rule consistent_registry) (simp_all add: called_def)

lemma consistent_conclude [simp]: "consistent (conclude tok st d s) = consistent s"
  by (rule consistent_registry) (simp_all add: conclude_def split: option.splits)

lemma consistent_defect [simp]: "consistent (defect tok s) = consistent s"
  by (simp add: defect_def) (rule consistent_registry, simp_all)













lemma consistent_fields [simp]:
  "consistent (s\<lparr>tracker := t\<rparr>) = consistent s"
  "consistent (s\<lparr>jobs := js\<rparr>) = consistent s"
  "consistent (s\<lparr>adapter_calls := cs\<rparr>) = consistent s"
  "consistent (s\<lparr>defects := ds\<rparr>) = consistent s"
  by (rule consistent_registry, simp, simp)+












subsection \<open>The Tracker keeps its records\<close>

lemma Begin_cases:
  "(\<exists>k'. Begin t x k = Inl k') \<or> Begin t x k = Inr (token_of (issued t), registered t x k)"
  by (simp add: Begin_def registered_def split: option.splits)

lemma attach_tracker:
  "attach x br s = Inr s' \<Longrightarrow> tracker s' = tracker s \<and> jobs s' = jobs s"
  by (auto simp: attach_def split: sum.splits)

lemma detach_tracker:
  "detach x b s = Inr s' \<Longrightarrow> tracker s' = tracker s \<and> jobs s' = jobs s"
  by (auto simp: detach_def split: sum.splits)

lemma called_tracker [simp]:
  "tracker (called c s) = tracker s" "jobs (called c s) = jobs s"
  by (simp_all add: called_def)

lemma Provision_effect: "quiet D (ProvisionReq x req a) s \<or> accepting D (ProvisionReq x req a) s"
  using Begin_cases [of "tracker s" x KProvision]
  by (auto simp: quiet_def accepting_def Provision_def reg_Get_def reg_Put_def
      split: option.splits sum.splits) blast+

lemma Deprovision_effect:
  "quiet D (DeprovisionReq c i p a) s \<or> accepting D (DeprovisionReq c i p a) s"
  using Begin_cases [of "tracker s" "si_ID i" KDeprovision]
  by (auto simp: quiet_def accepting_def Deprovision_def reg_Get_def reg_Update_def reg_Delete_def
      split: option.splits sum.splits) blast+

lemma Update_effect: "quiet D (UpdateReq x req a) s \<or> accepting D (UpdateReq x req a) s"
  using Begin_cases [of "tracker s" x KUpdate]
  by (auto simp: quiet_def accepting_def Update_def reg_Get_def reg_Update_def
      split: option.splits sum.splits) blast+

lemma Bind_effect: "quiet D (BindReq i b req a) s \<or> accepting D (BindReq i b req a) s"
  using Begin_cases [of "tracker s" "si_ID i" KBind]
  by (auto simp: quiet_def accepting_def Bind_def reg_Get_def bind_response_def
      dest: attach_tracker split: option.splits sum.splits) blast+

lemma Unbind_effect: "quiet D (UnbindReq i bi p a) s \<or> accepting D (UnbindReq i bi p a) s"
  using Begin_cases [of "tracker s" "si_ID i" KUnbind]
  by (auto simp: quiet_def accepting_def Unbind_def reg_Get_def reg_Update_def
      dest: detach_tracker split: option.splits sum.splits) blast+

lemma serve_effect: "quiet D q s \<or> accepting D q s"
proof (cases q)
  case CatalogReq
  then show ?thesis by (simp add: quiet_def)
next
  case (LastOperationReq x req)
  then show ?thesis by (simp add: quiet_def)
next
  case (GetServiceInstanceReq x)
  then show ?thesis by (simp add: quiet_def)
next
  case (GetBindInstanceReq b)
  then show ?thesis by (simp add: quiet_def)
qed (simp_all add: Provision_effect Deprovision_effect Bind_effect Unbind_effect Update_effect)

lemma token_of_inj [simp]: "token_of n = token_of m \<longleftrightarrow> n = m"
proof
  assume "token_of n = token_of m"
  then have "length (token_of n) = length (token_of m)" by simp
  then show "n = m" by (simp add: token_of_def)
qed simp

lemma keys_set_outcome [simp]: "map fst (set_outcome tok st d rs) = map fst rs"
  by (induction rs) auto

lemma map_of_set_outcome_other:
  "tok' \<noteq> tok \<Longrightarrow> map_of (set_outcome tok st d rs) tok' = map_of rs tok'"
  by (induction rs) auto

lemma map_of_set_outcome_same:
  "map_of rs tok = Some r \<Longrightarrow>
   map_of (set_outcome tok st d rs) tok = Some (r\<lparr>ostate := st, description := d\<rparr>)"
  by (induction rs) auto

lemma map_of_filter_keep:
  "map_of rs k = Some v \<Longrightarrow> P (k, v) \<Longrightarrow> map_of (filter P rs) k = Some v"
  by (induction rs) auto

lemma map_of_filter_none:
  "map_of rs k = None \<Longrightarrow> map_of (filter P rs) k = None"
  by (induction rs) (auto split: if_splits)

lemma map_of_filter_drop:
  "distinct (map fst rs) \<Longrightarrow> map_of rs k = Some v \<Longrightarrow> \<not> P (k, v) \<Longrightarrow> map_of (filter P rs) k = None"
proof (induction rs)
  case Nil
  then show ?case by simp
next
  case (Cons a rs)
  obtain k' v' where a: "a = (k', v')" by (cases a)
  show ?case
  proof (cases "k' = k")
    case True
    with Cons.prems a have "v' = v" and "k \<notin> fst ` set rs" by auto
    then have "map_of rs k = None" by (simp add: map_of_eq_None_iff)
    from map_of_filter_none [OF this] True a \<open>v' = v\<close> Cons.prems(3) show ?thesis by simp
  next
    case False
    with Cons a show ?thesis by auto
  qed
qed

lemma map_of_filter_other_key:
  "k \<noteq> k' \<Longrightarrow> map_of (filter (\<lambda>(t, j). t \<noteq> k') js) k = map_of js k"
  by (induction js) auto

lemma completed_issued [simp]: "issued (completed t tok st d) = issued t"
  by (simp add: completed_def Complete_def split: option.splits)

lemma completed_keys [simp]: "map fst (records (completed t tok st d)) = map fst (records t)"
  by (simp add: completed_def Complete_def split: option.splits)

lemma completed_other:
  "tok' \<noteq> tok \<Longrightarrow> map_of (records (completed t tok st d)) tok' = map_of (records t) tok'"
  by (simp add: completed_def Complete_def map_of_set_outcome_other split: option.splits)

lemma completed_in_progress:
  "map_of (records t) tok = Some r \<Longrightarrow> ostate r = InProgress \<Longrightarrow>
   map_of (records (completed t tok st d)) tok = Some (r\<lparr>ostate := st, description := d\<rparr>)"
  by (simp add: completed_def Complete_def map_of_set_outcome_same)

lemma completed_finished:
  "map_of (records t) tok = Some r \<Longrightarrow> ostate r \<noteq> InProgress \<Longrightarrow> completed t tok st d = t"
  by (simp add: completed_def Complete_def)

lemma completed_unknown:
  "map_of (records t) tok = None \<Longrightarrow> completed t tok st d = t"
  by (simp add: completed_def Complete_def)

lemma conclude_tracker [simp]:
  "tracker (conclude tok st d s) = completed (tracker s) tok st d"
  "jobs (conclude tok st d s) = jobs s"
  by (simp_all add: conclude_def completed_def split: option.splits)

lemma defect_tracker [simp]:
  "tracker (defect tok s) = completed (tracker s) tok Failed ''internal error''"
  "jobs (defect tok s) = jobs s"
  by (simp_all add: defect_def)

lemma perform_effect:
  "\<exists>st d. (st = Succeeded \<or> st = Failed) \<and>
     tracker (perform D tok j s) = completed (tracker s) tok st d \<and>
     jobs (perform D tok j s) = jobs s"
proof (cases j)
  case (JProvision x)
  then show ?thesis by (auto split: option.splits sum.splits)
next
  case (JDeprovision x)
  then show ?thesis by (auto split: option.splits sum.splits)
next
  case (JBind x b)
  then show ?thesis by (auto dest!: detach_tracker split: option.splits sum.splits) blast+
next
  case (JUnbind x b)
  then show ?thesis by (auto dest!: detach_tracker split: option.splits sum.splits) blast+
next
  case (JUpdate x new ps)
  then show ?thesis by (auto split: option.splits sum.splits)
qed

lemma run_job_effect:
  "(tracker (run_job D tok s) = tracker s \<and> jobs (run_job D tok s) = jobs s \<and>
      map_of (jobs s) tok = None) \<or>
   (\<exists>st d. (st = Succeeded \<or> st = Failed) \<and>
      tracker (run_job D tok s) = completed (tracker s) tok st d \<and>
      jobs (run_job D tok s) = filter (\<lambda>(tok', j). tok' \<noteq> tok) (jobs s) \<and>
      map_of (jobs s) tok \<noteq> None)"
proof (cases "map_of (jobs s) tok")
  case None
  then show ?thesis by (simp add: run_job_def)
next
  case (Some j)
  let ?s = "s\<lparr>jobs := filter (\<lambda>(tok', j). tok' \<noteq> tok) (jobs s)\<rparr>"
  from perform_effect [of D tok j ?s] Some show ?thesis
    by (simp add: run_job_def)
qed

lemma well_tracked_registered:
  assumes "well_tracked s" and "tracker s' = registered (tracker s) x k"
  shows "well_tracked s'"
proof -
  from assms(1) have d: "distinct (map fst (records (tracker s)))"
    and i: "\<And>tok. tok \<in> fst ` set (records (tracker s)) \<Longrightarrow> issued_before tok s"
    by (auto simp: well_tracked_def)
  have fresh: "token_of (issued (tracker s)) \<notin> fst ` set (records (tracker s))"
  proof
    assume "token_of (issued (tracker s)) \<in> fst ` set (records (tracker s))"
    from i [OF this] show False by (simp add: issued_before_def)
  qed
  have "issued_before tok s'" if "tok \<in> fst ` set (records (tracker s'))" for tok
  proof (cases "tok = token_of (issued (tracker s))")
    case True
    then show ?thesis by (auto simp: issued_before_def assms(2) registered_def)
  next
    case False
    with that have "tok \<in> fst ` set (records (tracker s))"
      by (auto simp: assms(2) registered_def)
    from i [OF this] show ?thesis
      by (auto simp: issued_before_def assms(2) registered_def intro: less_SucI)
  qed
  with d fresh show ?thesis
    by (simp add: well_tracked_def assms(2) registered_def)
qed

lemma well_tracked_same:
  assumes "well_tracked s" and "map fst (records (tracker s')) = map fst (records (tracker s))"
    and "issued (tracker s') = issued (tracker s)"
  shows "well_tracked s'"
proof -
  from assms(2) have "fst ` set (records (tracker s')) = fst ` set (records (tracker s))"
    by (metis set_map)
  with assms show ?thesis by (simp add: well_tracked_def issued_before_def)
qed

lemma well_tracked_collect:
  assumes "well_tracked s"
  shows "well_tracked (s\<lparr>tracker := collect (tracker s) tok\<rparr>)"
  using assms
  by (auto simp: well_tracked_def issued_before_def collect_def distinct_map_filter)

lemma well_tracked_step:
  assumes "well_tracked s"
  shows "well_tracked (step D ev s)"
proof (cases ev)
  case (Request q)
  from serve_effect [of D q s] show ?thesis
  proof
    assume "quiet D q s"
    then have "tracker (serve D q s) = tracker s" by (simp add: quiet_def)
    with assms Request show ?thesis by (simp add: well_tracked_same)
  next
    assume "accepting D q s"
    then obtain x k where "tracker (serve D q s) = registered (tracker s) x k"
      by (auto simp: accepting_def)
    from well_tracked_registered [OF assms this] Request show ?thesis by simp
  qed
next
  case (Finish tok)
  from run_job_effect [of D tok s] have
    "map fst (records (tracker (run_job D tok s))) = map fst (records (tracker s)) \<and>
     issued (tracker (run_job D tok s)) = issued (tracker s)"
    by auto
  with assms Finish show ?thesis by (simp add: well_tracked_same)
next
  case (Collect tok)
  with assms show ?thesis by (simp add: well_tracked_collect)
qed

lemma well_tracked_run:
  assumes "well_tracked s"
  shows "well_tracked (run D evs s)"
  using assms by (induction evs arbitrary: s) (simp_all add: well_tracked_step)

lemma well_tracked_initial: "well_tracked initial"
  by (simp add: well_tracked_def initial_def)

lemma accepted_pending:
  assumes "operation_token D q s = tok" and "tok \<noteq> []"
  shows "pending tok (serve D q s)"
proof -
  from serve_effect [of D q s] assms have "accepting D q s" by (auto simp: quiet_def)
  then obtain x k j where t: "tracker (serve D q s) = registered (tracker s) x k"
    and j: "jobs (serve D q s) = (token_of (issued (tracker s)), j) # jobs s"
    and o: "operation_token D q s = token_of (issued (tracker s))"
    by (auto simp: accepting_def)
  from o assms(1) have "tok = token_of (issued (tracker s))" by simp
  with t j show ?thesis
    by (auto simp: pending_def issued_before_def registered_def)
qed

lemma pending_step:
  assumes "pending tok s" and "ev \<noteq> Finish tok"
  shows "pending tok (step D ev s)"
proof -
  from assms(1) obtain n r where n: "n < issued (tracker s)" "tok = token_of n"
    and j: "map_of (jobs s) tok \<noteq> None"
    and r: "map_of (records (tracker s)) tok = Some r" "ostate r = InProgress" "description r = []"
    by (auto simp: pending_def issued_before_def)
  show ?thesis
  proof (cases ev)
    case (Request q)
    from serve_effect [of D q s] show ?thesis
    proof
      assume "quiet D q s"
      with assms(1) Request show ?thesis
        by (simp add: quiet_def pending_def issued_before_def)
    next
      assume "accepting D q s"
      then obtain x k j' where t: "tracker (serve D q s) = registered (tracker s) x k"
        and js: "jobs (serve D q s) = (token_of (issued (tracker s)), j') # jobs s"
        by (auto simp: accepting_def)
      from n have "token_of (issued (tracker s)) \<noteq> tok" by simp
      with t js n j r Request show ?thesis
        by (auto simp: pending_def issued_before_def registered_def intro: less_SucI)
    qed
  next
    case (Finish tok')
    with assms(2) have ne: "tok \<noteq> tok'" by auto
    from run_job_effect [of D tok' s] consider
      (idle) "tracker (run_job D tok' s) = tracker s" "jobs (run_job D tok' s) = jobs s"
    | (ran) st d where "tracker (run_job D tok' s) = completed (tracker s) tok' st d"
        "jobs (run_job D tok' s) = filter (\<lambda>(t, j). t \<noteq> tok') (jobs s)"
      by blast
    then show ?thesis
    proof cases
      case idle
      with assms(1) Finish show ?thesis by (simp add: pending_def issued_before_def)
    next
      case ran
      with n j r ne Finish show ?thesis
        by (auto simp: pending_def issued_before_def completed_other map_of_filter_other_key)
    qed
  next
    case (Collect tok')
    have "map_of (filter (\<lambda>(t, r). \<not> (t = tok' \<and> ostate r \<noteq> InProgress)) (records (tracker s))) tok
        = Some r"
      by (rule map_of_filter_keep [OF r(1)]) (simp add: r(2))
    with n j r Collect show ?thesis
      by (auto simp: pending_def issued_before_def collect_def)
  qed
qed

lemma pending_run:
  assumes "pending tok s" and "Finish tok \<notin> set evs"
  shows "pending tok (run D evs s)"
  using assms
proof (induction evs arbitrary: s)
  case Nil
  then show ?case by simp
next
  case (Cons ev evs)
  from Cons.prems have "ev \<noteq> Finish tok" and "Finish tok \<notin> set evs" by auto
  from pending_step [OF Cons.prems(1) this(1)] Cons.IH this(2) show ?case by simp
qed

lemma finish_records:
  assumes "pending tok s"
  shows "\<exists>st d. (st = Succeeded \<or> st = Failed) \<and> recorded tok st d (run_job D tok s)"
proof -
  from assms obtain r where i: "issued_before tok s"
    and j: "map_of (jobs s) tok \<noteq> None"
    and r: "map_of (records (tracker s)) tok = Some r" "ostate r = InProgress"
    by (auto simp: pending_def)
  from run_job_effect [of D tok s] j obtain st d where
    st: "st = Succeeded \<or> st = Failed"
    and t: "tracker (run_job D tok s) = completed (tracker s) tok st d"
    by auto
  from completed_in_progress [OF r, of st d] t i
  have "recorded tok st d (run_job D tok s)"
    by (simp add: recorded_def issued_before_def)
  with st show ?thesis by blast
qed

lemma recorded_step:
  assumes "recorded tok st d s" and "st \<noteq> InProgress" and "ev \<noteq> Collect tok"
  shows "recorded tok st d (step D ev s)"
proof -
  from assms(1) obtain n r where n: "n < issued (tracker s)" "tok = token_of n"
    and r: "map_of (records (tracker s)) tok = Some r" "ostate r = st" "description r = d"
    by (auto simp: recorded_def issued_before_def)
  show ?thesis
  proof (cases ev)
    case (Request q)
    from serve_effect [of D q s] show ?thesis
    proof
      assume "quiet D q s"
      with assms(1) Request show ?thesis
        by (simp add: quiet_def recorded_def issued_before_def)
    next
      assume "accepting D q s"
      then obtain x k where t: "tracker (serve D q s) = registered (tracker s) x k"
        by (auto simp: accepting_def)
      from n have "token_of (issued (tracker s)) \<noteq> tok" by simp
      with t n r Request show ?thesis
        by (auto simp: recorded_def issued_before_def registered_def intro: less_SucI)
    qed
  next
    case (Finish tok')
    have same: "map_of (records (completed (tracker s) tok' st' d')) tok
        = map_of (records (tracker s)) tok" for st' d'
    proof (cases "tok' = tok")
      case False
      then show ?thesis by (simp add: completed_other)
    next
      case True
      from r assms(2) have "ostate r \<noteq> InProgress" by simp
      from completed_finished [OF r(1) this] True show ?thesis by simp
    qed
    from run_job_effect [of D tok' s] have
      "map_of (records (tracker (run_job D tok' s))) tok = map_of (records (tracker s)) tok \<and>
       issued (tracker (run_job D tok' s)) = issued (tracker s)"
      using same by auto
    with n r Finish show ?thesis by (auto simp: recorded_def issued_before_def)
  next
    case (Collect tok')
    with assms(3) have "tok' \<noteq> tok" by auto
    then have "map_of (filter (\<lambda>(t, r). \<not> (t = tok' \<and> ostate r \<noteq> InProgress))
        (records (tracker s))) tok = Some r"
      by (intro map_of_filter_keep [OF r(1)]) simp
    with n r Collect show ?thesis
      by (auto simp: recorded_def issued_before_def collect_def)
  qed
qed

lemma forgotten_step:
  assumes "forgotten tok s"
  shows "forgotten tok (step D ev s)"
proof -
  from assms obtain n where n: "n < issued (tracker s)" "tok = token_of n"
    and r: "map_of (records (tracker s)) tok = None"
    by (auto simp: forgotten_def issued_before_def)
  show ?thesis
  proof (cases ev)
    case (Request q)
    from serve_effect [of D q s] show ?thesis
    proof
      assume "quiet D q s"
      with assms Request show ?thesis
        by (simp add: quiet_def forgotten_def issued_before_def)
    next
      assume "accepting D q s"
      then obtain x k where t: "tracker (serve D q s) = registered (tracker s) x k"
        by (auto simp: accepting_def)
      from n have "token_of (issued (tracker s)) \<noteq> tok" by simp
      with t n r Request show ?thesis
        by (auto simp: forgotten_def issued_before_def registered_def intro: less_SucI)
    qed
  next
    case (Finish tok')
    have same: "map_of (records (completed (tracker s) tok' st' d')) tok
        = map_of (records (tracker s)) tok" for st' d'
    proof (cases "tok' = tok")
      case False
      then show ?thesis by (simp add: completed_other)
    next
      case True
      with r show ?thesis by (simp add: completed_unknown)
    qed
    from run_job_effect [of D tok' s] have
      "map_of (records (tracker (run_job D tok' s))) tok = map_of (records (tracker s)) tok \<and>
       issued (tracker (run_job D tok' s)) = issued (tracker s)"
      using same by auto
    with n r Finish show ?thesis by (auto simp: forgotten_def issued_before_def)
  next
    case (Collect tok')
    from map_of_filter_none [OF r] n Collect show ?thesis
      by (auto simp: forgotten_def issued_before_def collect_def)
  qed
qed

lemma collect_forgets:
  assumes "well_tracked s" and "recorded tok st d s" and "st \<noteq> InProgress"
  shows "forgotten tok (step D (Collect tok) s)"
proof -
  from assms(2) obtain r where i: "issued_before tok s"
    and r: "map_of (records (tracker s)) tok = Some r" "ostate r = st"
    by (auto simp: recorded_def)
  from assms(1) have dist: "distinct (map fst (records (tracker s)))"
    by (simp add: well_tracked_def)
  have "map_of (filter (\<lambda>(t, r). \<not> (t = tok \<and> ostate r \<noteq> InProgress))
      (records (tracker s))) tok = None"
    by (rule map_of_filter_drop [OF dist r(1)]) (simp add: r(2) assms(3))
  with i show ?thesis by (simp add: forgotten_def issued_before_def collect_def)
qed

lemma recorded_run:
  assumes "recorded tok st d s" and "st \<noteq> InProgress" and "Collect tok \<notin> set evs"
  shows "recorded tok st d (run D evs s)"
  using assms
proof (induction evs arbitrary: s)
  case Nil
  then show ?case by simp
next
  case (Cons ev evs)
  from Cons.prems(3) have "ev \<noteq> Collect tok" and rest: "Collect tok \<notin> set evs" by auto
  from recorded_step [OF Cons.prems(1,2) this(1)] Cons.IH Cons.prems(2) rest show ?case by simp
qed

lemma forgotten_run:
  assumes "forgotten tok s"
  shows "forgotten tok (run D evs s)"
  using assms by (induction evs arbitrary: s) (simp_all add: forgotten_step)

lemma collected_run:
  assumes "well_tracked s" and "recorded tok st d s" and "st \<noteq> InProgress"
    and "Collect tok \<in> set evs"
  shows "forgotten tok (run D evs s)"
  using assms
proof (induction evs arbitrary: s)
  case Nil
  then show ?case by simp
next
  case (Cons ev evs)
  show ?case
  proof (cases "ev = Collect tok")
    case True
    from collect_forgets [OF Cons.prems(1,2,3), of D] True
    have "forgotten tok (step D ev s)" by simp
    from forgotten_run [OF this] show ?thesis by simp
  next
    case False
    with Cons.prems(4) have rest: "Collect tok \<in> set evs" by auto
    from Cons.IH [OF well_tracked_step [OF Cons.prems(1)]
        recorded_step [OF Cons.prems(2,3) False] Cons.prems(3) rest]
    show ?thesis by simp
  qed
qed

lemma run_append: "run D (evs @ evs') s = run D evs' (run D evs s)"
  by (induction evs arbitrary: s) simp_all

subsection \<open>Provision and deprovision\<close>


lemmas eval_defs =
  Provision_def Deprovision_def Bind_def Unbind_def Update_def LastOperation_def
  reg_Get_def reg_Put_def reg_Update_def reg_Delete_def Begin_def Complete_def Status_def
  unfinished_def collect_def called_def new_instance_def new_binding_def attach_def detach_def
  add_binding_def remove_binding_def bind_response_def conclude_def defect_def run_job_def
  initial_def stub_def request_P1_def bind_request_def handle_def token_of_def completed_def
  poll_def refusing_create_def refusing_bind_def update_to_P2_def demo_plan_def
  demo_service_def all_plans_def find_plan_def update_allowed_def binding_set_def
  LastOperationStateInProgress_def LastOperationStateSucceeded_def LastOperationStateFailed_def








subsection \<open>Polling the last operation\<close>

lemma state_text_values:
  "state_text st = ''in progress'' \<or> state_text st = ''succeeded'' \<or> state_text st = ''failed''"
  by (cases st)
    (simp_all add: LastOperationStateInProgress_def LastOperationStateSucceeded_def
      LastOperationStateFailed_def)

lemma poll_pending:
  assumes "pending tok s" and "lreq_Operation req = tok"
  shows "LastOperation x req s =
    Inr \<lparr>lres_State = LastOperationStateInProgress, lres_Description = []\<rparr>"
  using assms by (auto simp: pending_def LastOperation_def Status_def)

lemma poll_recorded:
  assumes "recorded tok st d s" and "lreq_Operation req = tok"
  shows "LastOperation x req s = Inr \<lparr>lres_State = state_text st, lres_Description = d\<rparr>"
  using assms by (auto simp: recorded_def LastOperation_def Status_def)

lemma poll_forgotten:
  assumes "forgotten tok s" and "lreq_Operation req = tok"
  shows "LastOperation x req s = Inl NotFound"
  using assms by (auto simp: forgotten_def LastOperation_def Status_def)

text \<open>
  Claim C6, as the design has it. Let a call return the operation token \<open>tok\<close>, and let
  the events after it not complete the background task of \<open>tok\<close>. Then a poll on
  \<open>tok\<close> returns the state \<open>in progress\<close>. Once the task completes, the poll returns
  a terminal state, \<open>succeeded\<close> or \<open>failed\<close>. After any further events a poll returns
  that same state and description if the record of \<open>tok\<close> has not been collected among
  them, and \<open>NotFound\<close> if it has; so it never returns \<open>in progress\<close> again. The
  state of every poll response is one of the three texts \<open>in progress\<close>,
  \<open>succeeded\<close>, \<open>failed\<close>.
\<close>

theorem last_operation_polling:
  assumes "operation_token D q (run D evs0 initial) = tok" and "tok \<noteq> []"
    and "lreq_Operation req = tok" and "Finish tok \<notin> set evs1"
  shows "LastOperation x req (run D (evs0 @ Request q # evs1) initial) =
      Inr \<lparr>lres_State = LastOperationStateInProgress, lres_Description = []\<rparr> \<and>
    (\<exists>st d. (st = Succeeded \<or> st = Failed) \<and>
       LastOperation x req (run D (evs0 @ Request q # evs1 @ [Finish tok]) initial) =
         Inr \<lparr>lres_State = state_text st, lres_Description = d\<rparr> \<and>
       (\<forall>evs2.
          LastOperation x req (run D (evs0 @ Request q # evs1 @ Finish tok # evs2) initial) =
            (if Collect tok \<in> set evs2 then Inl NotFound
             else Inr \<lparr>lres_State = state_text st, lres_Description = d\<rparr>))) \<and>
    (\<forall>s r. LastOperation x req s = Inr r \<longrightarrow>
       lres_State r = ''in progress'' \<or> lres_State r = ''succeeded'' \<or> lres_State r = ''failed'')"
proof (intro conjI)
  let ?s0 = "run D evs0 initial"
  let ?s1 = "serve D q ?s0"
  let ?s2 = "run D evs1 ?s1"
  let ?s3 = "run_job D tok ?s2"
  have w0: "well_tracked ?s0" by (rule well_tracked_run [OF well_tracked_initial])
  from well_tracked_step [OF w0, of D "Request q"] have w1: "well_tracked ?s1" by simp
  have w2: "well_tracked ?s2" by (rule well_tracked_run [OF w1])
  from well_tracked_step [OF w2, of D "Finish tok"] have w3: "well_tracked ?s3" by simp
  have p1: "pending tok ?s1" by (rule accepted_pending [OF assms(1,2)])
  have p2: "pending tok ?s2" by (rule pending_run [OF p1 assms(4)])
  have r2: "run D (evs0 @ Request q # evs1) initial = ?s2" by (simp add: run_append)
  have r3: "run D (evs0 @ Request q # evs1 @ [Finish tok]) initial = ?s3"
    by (simp add: run_append)
  have r4: "run D (evs0 @ Request q # evs1 @ Finish tok # evs2) initial = run D evs2 ?s3" for evs2
    by (simp add: run_append)
  from poll_pending [OF p2 assms(3)] r2
  show "LastOperation x req (run D (evs0 @ Request q # evs1) initial) =
      Inr \<lparr>lres_State = LastOperationStateInProgress, lres_Description = []\<rparr>" by simp
  from finish_records [OF p2, of D] obtain st d where
    st: "st = Succeeded \<or> st = Failed" and re: "recorded tok st d ?s3"
    by blast
  from st have ne: "st \<noteq> InProgress" by auto
  have now: "LastOperation x req ?s3 = Inr \<lparr>lres_State = state_text st, lres_Description = d\<rparr>"
    by (rule poll_recorded [OF re assms(3)])
  have later: "LastOperation x req (run D evs2 ?s3) =
      (if Collect tok \<in> set evs2 then Inl NotFound
       else Inr \<lparr>lres_State = state_text st, lres_Description = d\<rparr>)" for evs2
  proof (cases "Collect tok \<in> set evs2")
    case True
    from poll_forgotten [OF collected_run [OF w3 re ne True] assms(3)] True
    show ?thesis by simp
  next
    case False
    from poll_recorded [OF recorded_run [OF re ne False] assms(3)] False
    show ?thesis by simp
  qed
  from st now later r3 r4
  show "\<exists>st d. (st = Succeeded \<or> st = Failed) \<and>
       LastOperation x req (run D (evs0 @ Request q # evs1 @ [Finish tok]) initial) =
         Inr \<lparr>lres_State = state_text st, lres_Description = d\<rparr> \<and>
       (\<forall>evs2.
          LastOperation x req (run D (evs0 @ Request q # evs1 @ Finish tok # evs2) initial) =
            (if Collect tok \<in> set evs2 then Inl NotFound
             else Inr \<lparr>lres_State = state_text st, lres_Description = d\<rparr>))"
    by (intro exI [of _ st] exI [of _ d]) simp
  show "\<forall>s r. LastOperation x req s = Inr r \<longrightarrow>
       lres_State r = ''in progress'' \<or> lres_State r = ''succeeded'' \<or> lres_State r = ''failed''"
    using state_text_values
    by (auto simp: LastOperation_def Status_def split: option.splits)
qed

theorem last_operation_polling_witness:
  "operation_token stub (ProvisionReq ''I2'' (request_P1 True) True) (run stub [] initial) = ''o'' \<and>
   LastOperation ''I2'' (poll ''o'')
     (run stub [Request (ProvisionReq ''I2'' (request_P1 True) True)] initial) =
     Inr \<lparr>lres_State = ''in progress'', lres_Description = []\<rparr>"
proof -
  have a: "operation_token stub (ProvisionReq ''I2'' (request_P1 True) True) (run stub [] initial)
      = ''o''"
    by (simp add: eval_defs)
  have b: "''o'' \<noteq> []" by simp
  have c: "lreq_Operation (poll ''o'') = ''o''" by (simp add: poll_def)
  have d: "Finish ''o'' \<notin> set []" by simp
  from last_operation_polling [OF a b c d, of "''I2''"] a show ?thesis
    by (simp add: LastOperationStateInProgress_def)
qed

text \<open>
  Claim C6 as stated fails where it says that every later poll returns the same terminal
  state: the record of a finished operation is retained only until it is superseded and
  collected. Here the provisioning of \<open>I2\<close> succeeds, a deprovisioning of \<open>I2\<close> is
  accepted after it, and the older record is collected; the poll that returned
  \<open>succeeded\<close> now returns \<open>NotFound\<close>.
\<close>

theorem poll_after_collection:
  "LastOperation ''I2'' (poll ''o'')
     (run stub [Request (ProvisionReq ''I2'' (request_P1 True) True), Finish ''o''] initial) =
     Inr \<lparr>lres_State = ''succeeded'', lres_Description = []\<rparr> \<and>
   LastOperation ''I2'' (poll ''o'')
     (run stub [Request (ProvisionReq ''I2'' (request_P1 True) True), Finish ''o'',
                Request (DeprovisionReq Client (handle ''I2'') ''P1'' True), Collect ''o'']
        initial) =
     Inl NotFound"
  by (simp add: eval_defs)

subsection \<open>Bindings and their instances\<close>




subsection \<open>Identical bind requests\<close>









end
